theory Spec2Isabelle
  imports Main "HOL-Library.Word"
begin

section \<open>Data model\<close>

text \<open>
  Go's \<open>uint64\<close> and \<open>uint32\<close> are words: \<open>+\<close>, \<open>-\<close> and \<open>*\<close> wrap around and
  \<open>div\<close> is the unsigned quotient. \<open>common.Hash\<close> is a 32-byte array and
  \<open>common.Address\<close> a 20-byte array; both are compared with \<open>==\<close>, so a word of the
  same width carries them. \<open>[]byte\<close> is a list of bytes.
\<close>

type_synonym u64 = "64 word"
type_synonym u32 = "32 word"
type_synonym Hash = "256 word"
type_synonym Address = "160 word"
type_synonym bytes = "8 word list"

text \<open>\<open>state.ZKCounters\<close> and \<open>state.BatchResources\<close>, with the fields batch.go reads.\<close>

record ZKCounters =
  GasUsed :: u64
  UsedKeccakHashes :: u32
  UsedPoseidonHashes :: u32
  UsedPoseidonPaddings :: u32
  UsedMemAligns :: u32
  UsedArithmetics :: u32
  UsedBinaries :: u32
  UsedSteps :: u32
  UsedSha256Hashes_V2 :: u32

record BatchResources =
  ZKCounters :: ZKCounters
  Bytes :: u64

text \<open>\<open>state.BatchConstraintsCfg\<close>: the configured maxima.\<close>

record BatchConstraintsCfg =
  MaxTxsPerBatch :: u64
  MaxBatchBytesSize :: u64
  MaxCumulativeGasUsed :: u64
  MaxKeccakHashes :: u32
  MaxPoseidonHashes :: u32
  MaxPoseidonPaddings :: u32
  MaxMemAligns :: u32
  MaxArithmetics :: u32
  MaxBinaries :: u32
  MaxSteps :: u32
  MaxSHA256Hashes :: u32

datatype ClosingReason =
  EmptyClosingReason
  | BatchFullClosingReason
  | BatchAlmostFullClosingReason
  | ForcedBatchClosingReason
  | TimeoutClosingReason
  | GERUpdateClosingReason

text \<open>The sequencer's \<open>Batch\<close> (batch.go, lines 18-29). \<open>countOfTxs\<close> is a Go \<open>int\<close>.\<close>

record Batch =
  batchNumber :: u64
  coinbase :: Address
  timestamp :: nat
  initialStateRoot :: Hash
  imStateRoot :: Hash
  finalStateRoot :: Hash
  localExitRoot :: Hash
  countOfTxs :: int
  remainingResources :: BatchResources
  closingReason :: ClosingReason

definition isEmpty :: "Batch \<Rightarrow> bool" where
  "isEmpty w = (countOfTxs w = 0)"

section \<open>Resource budget\<close>

definition getUsedBatchResources :: "BatchConstraintsCfg \<Rightarrow> BatchResources \<Rightarrow> BatchResources" where
  "getUsedBatchResources constraints remaining =
     \<lparr> ZKCounters = \<lparr>
         GasUsed = MaxCumulativeGasUsed constraints - GasUsed (ZKCounters remaining),
         UsedKeccakHashes = MaxKeccakHashes constraints - UsedKeccakHashes (ZKCounters remaining),
         UsedPoseidonHashes = MaxPoseidonHashes constraints - UsedPoseidonHashes (ZKCounters remaining),
         UsedPoseidonPaddings = MaxPoseidonPaddings constraints - UsedPoseidonPaddings (ZKCounters remaining),
         UsedMemAligns = MaxMemAligns constraints - UsedMemAligns (ZKCounters remaining),
         UsedArithmetics = MaxArithmetics constraints - UsedArithmetics (ZKCounters remaining),
         UsedBinaries = MaxBinaries constraints - UsedBinaries (ZKCounters remaining),
         UsedSteps = MaxSteps constraints - UsedSteps (ZKCounters remaining),
         UsedSha256Hashes_V2 = MaxSHA256Hashes constraints - UsedSha256Hashes_V2 (ZKCounters remaining) \<rparr>,
       Bytes = MaxBatchBytesSize constraints - Bytes remaining \<rparr>"

definition getMaxRemainingResources :: "BatchConstraintsCfg \<Rightarrow> BatchResources" where
  "getMaxRemainingResources constraints =
     \<lparr> ZKCounters = \<lparr>
         GasUsed = MaxCumulativeGasUsed constraints,
         UsedKeccakHashes = MaxKeccakHashes constraints,
         UsedPoseidonHashes = MaxPoseidonHashes constraints,
         UsedPoseidonPaddings = MaxPoseidonPaddings constraints,
         UsedMemAligns = MaxMemAligns constraints,
         UsedArithmetics = MaxArithmetics constraints,
         UsedBinaries = MaxBinaries constraints,
         UsedSteps = MaxSteps constraints,
         UsedSha256Hashes_V2 = MaxSHA256Hashes constraints \<rparr>,
       Bytes = MaxBatchBytesSize constraints \<rparr>"

text \<open>
  The two threshold functions are methods of the finalizer and read
  \<open>f.cfg.ResourcePercentageToCloseBatch\<close>, a \<open>uint32\<close>; it is the first argument here.
  The 64-bit one converts the percentage with \<open>uint64(...)\<close>, which is \<open>ucast\<close>.
\<close>

definition getConstraintThresholdUint64 :: "u32 \<Rightarrow> u64 \<Rightarrow> u64" where
  "getConstraintThresholdUint64 pct input = input * ucast pct div 100"

definition getConstraintThresholdUint32 :: "u32 \<Rightarrow> u32 \<Rightarrow> u32" where
  "getConstraintThresholdUint32 pct input = input * pct div 100"

text \<open>The bound of the round-trip property: \<open>remaining\<close> is component-wise at most the maxima.\<close>

definition within_constraints :: "BatchConstraintsCfg \<Rightarrow> BatchResources \<Rightarrow> bool" where
  "within_constraints c r \<longleftrightarrow>
     GasUsed (ZKCounters r) \<le> MaxCumulativeGasUsed c \<and>
     UsedKeccakHashes (ZKCounters r) \<le> MaxKeccakHashes c \<and>
     UsedPoseidonHashes (ZKCounters r) \<le> MaxPoseidonHashes c \<and>
     UsedPoseidonPaddings (ZKCounters r) \<le> MaxPoseidonPaddings c \<and>
     UsedMemAligns (ZKCounters r) \<le> MaxMemAligns c \<and>
     UsedArithmetics (ZKCounters r) \<le> MaxArithmetics c \<and>
     UsedBinaries (ZKCounters r) \<le> MaxBinaries c \<and>
     UsedSteps (ZKCounters r) \<le> MaxSteps c \<and>
     UsedSha256Hashes_V2 (ZKCounters r) \<le> MaxSHA256Hashes c \<and>
     Bytes r \<le> MaxBatchBytesSize c"

section \<open>Errors, stored batches and executor responses\<close>

text \<open>
  Go errors are values. The five sentinels of the sequencer are package variables declared
  outside the given files; \<open>fmt_Errorf\<close> is \<open>fmt.Errorf\<close> with its format string and the
  errors among its arguments; \<open>errors_New\<close> stands for an error made by a collaborator
  (store, executor, JSON encoder, event log).
\<close>

datatype error =
  ErrGetBatchByNumber
  | ErrProcessBatch
  | ErrExecutorError
  | ErrProcessBatchOOC
  | ErrStateRootNoMatch
  | ErrResourceOverflow
  | errors_New string
  | fmt_Errorf string "error list"

text \<open>\<open>state.Batch\<close>, the row of a batch in the store, with the fields the code reads.\<close>

record state_Batch =
  BatchNumber :: u64
  Coinbase :: Address
  BatchL2Data :: bytes
  StateRoot :: Hash
  LocalExitRoot :: Hash
  AccInputHash :: Hash
  Timestamp :: nat
  GlobalExitRoot :: Hash
  WIP :: bool
  Resources :: BatchResources

text \<open>
  \<open>types.Batch\<close> of the JSON-RPC types (lines 353-370), the batch as the trusted node
  reports it. \<open>ArgUint64\<close> is \<open>uint64\<close> and \<open>ArgBytes\<close> is \<open>[]byte\<close>. The optional
  hashes and the block and transaction lists are not read by the classifier.
\<close>

record types_Batch =
  Number :: u64
  Coinbase :: Address
  StateRoot :: Hash
  GlobalExitRoot :: Hash
  MainnetExitRoot :: Hash
  RollupExitRoot :: Hash
  LocalExitRoot :: Hash
  AccInputHash :: Hash
  Timestamp :: u64
  Closed :: bool
  BatchL2Data :: bytes

text \<open>\<open>state.ProcessBatchResponse\<close>, with the fields the code reads.\<close>

record ProcessBatchResponse =
  NewStateRoot :: Hash
  NewLocalExitRoot :: Hash
  NewAccInputHash :: Hash
  UsedZkCounters :: ZKCounters
  ExecutorError :: "error option"
  IsRomOOCError :: bool

definition ZeroHash :: Hash where
  "ZeroHash = 0"

section \<open>Trusted-batch sync classifier\<close>

type_synonym BatchProcessMode = string

definition FullProcessMode :: BatchProcessMode where
  "FullProcessMode = ''full''"

definition IncrementalProcessMode :: BatchProcessMode where
  "IncrementalProcessMode = ''incremental''"

definition ReprocessProcessMode :: BatchProcessMode where
  "ReprocessProcessMode = ''reprocess''"

definition NothingProcessMode :: BatchProcessMode where
  "NothingProcessMode = ''nothing''"

text \<open>Pointers that may be nil are options: \<open>TrustedBatch\<close> and \<open>StateBatch\<close>.\<close>

record ProcessData =
  BatchNumber :: u64
  Mode :: BatchProcessMode
  OldStateRoot :: Hash
  OldAccInputHash :: Hash
  BatchMustBeClosed :: bool
  TrustedBatch :: "types_Batch option"
  StateBatch :: "state_Batch option"
  Now :: nat
  Description :: string
  DebugPrefix :: string

record ProcessResponse =
  ProcessBatchResponse :: "ProcessBatchResponse option"
  ClearCache :: bool
  UpdateBatch :: "state_Batch option"
  UpdateBatchWithProcessBatchResponse :: bool

text \<open>
  \<open>TrustedState\<close> is declared in another file of the package; \<open>updateCache\<close> builds it
  from the one field \<open>LastTrustedBatches\<close>, a slice of two batch pointers.
\<close>

record TrustedState =
  LastTrustedBatches :: "state_Batch option list"

text \<open>The zero value \<open>ProcessData{}\<close>.\<close>

definition ProcessData_zero :: ProcessData where
  "ProcessData_zero =
     \<lparr> BatchNumber = 0, Mode = [], OldStateRoot = 0, OldAccInputHash = 0,
       BatchMustBeClosed = False, TrustedBatch = None, StateBatch = None, Now = 0,
       Description = [], DebugPrefix = [] \<rparr>"

text \<open>What \<open>%v\<close> prints for an unsigned integer and for a boolean.\<close>

definition digit_char :: "nat \<Rightarrow> char" where
  "digit_char d = char_of (48 + d)"

function FormatUint :: "nat \<Rightarrow> string" where
  "FormatUint n = (if n < 10 then [digit_char n] else FormatUint (n div 10) @ [digit_char (n mod 10)])"
  by pat_completeness auto
termination
  by (relation "measure (\<lambda>n. n)") auto

definition FormatBool :: "bool \<Rightarrow> string" where
  "FormatBool v = (if v then ''true'' else ''false'')"

text \<open>
  The loop of \<open>checkIfSyncedWhitoutWIP\<close> over \<open>values\<close> and \<open>names\<close> (lines 272-276):
  one entry of the debug string for each value that is false.
\<close>

fun debugStr :: "(string \<times> bool) list \<Rightarrow> string" where
  "debugStr [] = []"
| "debugStr ((name, v) # rest) =
     (if \<not> v then name @ '': '' @ FormatBool v @ '', '' @ debugStr rest else debugStr rest)"

text \<open>
  \<open>checkIfSyncedWhitoutWIP\<close> compares the \<open>String()\<close> renderings of hashes and
  addresses; these are methods of go-ethereum's \<open>common.Hash\<close> and \<open>common.Address\<close>,
  taken here as the parameters \<open>hashStr\<close> and \<open>addrStr\<close>. The batch data is compared
  through \<open>hex.EncodeToString\<close>, two lower-case digits for each byte.
\<close>

definition hexdigit :: "nat \<Rightarrow> char" where
  "hexdigit d = ''0123456789abcdef'' ! d"

fun hex_EncodeToString :: "bytes \<Rightarrow> string" where
  "hex_EncodeToString [] = []"
| "hex_EncodeToString (b # bs) =
     hexdigit (unat b div 16) # hexdigit (unat b mod 16) # hex_EncodeToString bs"

definition checkIfSyncedWhitoutWIP ::
  "(Hash \<Rightarrow> string) \<Rightarrow> (Address \<Rightarrow> string) \<Rightarrow> state_Batch option \<Rightarrow> types_Batch option \<Rightarrow> bool \<times> string" where
  "checkIfSyncedWhitoutWIP hashStr addrStr stateBatch trustedBatch =
     (case (stateBatch, trustedBatch) of
        (Some sb, Some tb) \<Rightarrow>
          (let matchNumber = (state_Batch.BatchNumber sb = Number tb);
               matchGER = (hashStr (state_Batch.GlobalExitRoot sb) = hashStr (types_Batch.GlobalExitRoot tb));
               matchLER = (hashStr (state_Batch.LocalExitRoot sb) = hashStr (types_Batch.LocalExitRoot tb));
               matchSR = (hashStr (state_Batch.StateRoot sb) = hashStr (types_Batch.StateRoot tb));
               matchCoinbase = (addrStr (state_Batch.Coinbase sb) = addrStr (types_Batch.Coinbase tb));
               matchTimestamp = True;
               matchL2Data = (hex_EncodeToString (state_Batch.BatchL2Data sb)
                                = hex_EncodeToString (types_Batch.BatchL2Data tb))
           in if matchNumber \<and> matchGER \<and> matchLER \<and> matchSR \<and>
                 matchCoinbase \<and> matchTimestamp \<and> matchL2Data
              then (True, ''Equal batch: '' @ FormatUint (unat (state_Batch.BatchNumber sb)))
              else (False, debugStr
                     [(''matchNumber'', matchNumber), (''matchGER'', matchGER),
                      (''matchLER'', matchLER), (''matchSR'', matchSR),
                      (''matchCoinbase'', matchCoinbase), (''matchTimestamp'', matchTimestamp),
                      (''matchL2Data'', matchL2Data)]))
      | _ \<Rightarrow> (False, ''nil pointers''))"

text \<open>
  \<open>checkIfSynced\<close> reads \<open>stateBatch.WIP\<close> and \<open>trustedBatch.Closed\<close> without a nil
  check (line 236); its one caller passes two pointers it has tested, so the arguments
  here are the batches themselves.
\<close>

definition checkIfSynced ::
  "(Hash \<Rightarrow> string) \<Rightarrow> (Address \<Rightarrow> string) \<Rightarrow> state_Batch \<Rightarrow> types_Batch \<Rightarrow> bool \<times> string" where
  "checkIfSynced hashStr addrStr stateBatch trustedBatch =
     (let (ok, str) = checkIfSyncedWhitoutWIP hashStr addrStr (Some stateBatch) (Some trustedBatch)
      in if WIP stateBatch \<noteq> (\<not> Closed trustedBatch)
         then (False, str @ ''matchWIP: false, '')
         else (ok, str))"

definition isTrustedBatchClosed :: "types_Batch \<Rightarrow> bool" where
  "isTrustedBatchClosed batch = Closed batch"

text \<open>
  \<open>getModeForProcessBatch\<close> returns a \<open>ProcessData\<close> and an error. The argument \<open>now\<close>
  is the answer of \<open>s.timeProvider.Now()\<close>.
\<close>

definition getModeForProcessBatch ::
  "(Hash \<Rightarrow> string) \<Rightarrow> (Address \<Rightarrow> string) \<Rightarrow> nat \<Rightarrow>
   types_Batch option \<Rightarrow> state_Batch option \<Rightarrow> state_Batch option \<Rightarrow> ProcessData \<times> error option" where
  "getModeForProcessBatch hashStr addrStr now trustedNodeBatch stateBatch statePreviousBatch =
     (case (trustedNodeBatch, statePreviousBatch) of
        (Some tnb, Some prev) \<Rightarrow>
          (let result =
                 (case stateBatch of
                    None \<Rightarrow> ProcessData_zero
                      \<lparr> Mode := FullProcessMode,
                        OldStateRoot := state_Batch.StateRoot prev,
                        Description := ''Batch is not on database, so is the first time we process it'' \<rparr>
                  | Some sb \<Rightarrow>
                      (let (batchSynced, strSync) = checkIfSynced hashStr addrStr sb tnb
                       in if batchSynced
                          then ProcessData_zero
                            \<lparr> Mode := NothingProcessMode,
                              OldStateRoot := 0,
                              Description := ''no new data on batch'' \<rparr>
                          else if state_Batch.StateRoot sb \<noteq> ZeroHash
                          then ProcessData_zero
                            \<lparr> Mode := IncrementalProcessMode,
                              OldStateRoot := state_Batch.StateRoot sb,
                              Description := ''batch exists + intermediateStateRoot '' @ strSync \<rparr>
                          else ProcessData_zero
                            \<lparr> Mode := ReprocessProcessMode,
                              OldStateRoot := state_Batch.StateRoot prev,
                              Description := ''batch exists + StateRoot==Zero'' @ strSync \<rparr>))
           in if Mode result = []
              then (result, Some (fmt_Errorf ''failed to get mode for process batch %v'' []))
              else (result
                     \<lparr> BatchNumber := Number tnb,
                       BatchMustBeClosed := (Mode result \<noteq> NothingProcessMode \<and> isTrustedBatchClosed tnb),
                       StateBatch := stateBatch,
                       TrustedBatch := trustedNodeBatch,
                       OldAccInputHash := state_Batch.AccInputHash prev,
                       Now := now \<rparr>, None))
      | _ \<Rightarrow> (ProcessData_zero,
               Some (fmt_Errorf ''trustedNodeBatch and statePreviousBatch can't be nil'' [])))"

text \<open>
  \<open>updateCache\<close> (lines 152-176). Slot 0 of the result points at \<open>response.UpdateBatch\<close>;
  the four assignments of lines 166-169 write through that pointer, and the returned
  slots hold the batch as written.
\<close>

definition updateCache :: "TrustedState \<Rightarrow> ProcessResponse option \<Rightarrow> bool \<Rightarrow> TrustedState" where
  "updateCache status response closedBatch =
     (let res = \<lparr> LastTrustedBatches = [None, None] \<rparr>
      in case response of
           None \<Rightarrow> res
         | Some resp \<Rightarrow>
             if ClearCache resp then res
             else
               (let res1 = (case UpdateBatch resp of
                              None \<Rightarrow> res
                            | Some b \<Rightarrow> res\<lparr> LastTrustedBatches := (LastTrustedBatches res)[0 := Some b] \<rparr>);
                    res2 = (case ProcessBatchResponse resp of
                              None \<Rightarrow> res1
                            | Some pbr \<Rightarrow>
                                if UpdateBatchWithProcessBatchResponse resp
                                then (case LastTrustedBatches res1 ! 0 of
                                        None \<Rightarrow> res1
                                      | Some b0 \<Rightarrow> res1\<lparr> LastTrustedBatches := (LastTrustedBatches res1)
                                          [0 := Some (b0\<lparr> state_Batch.StateRoot := NewStateRoot pbr,
                                                          state_Batch.LocalExitRoot := NewLocalExitRoot pbr,
                                                          state_Batch.AccInputHash := NewAccInputHash pbr,
                                                          WIP := \<not> closedBatch \<rparr>)] \<rparr>)
                                else res1)
                in if closedBatch
                   then res2\<lparr> LastTrustedBatches :=
                          ((LastTrustedBatches res2)[1 := LastTrustedBatches res2 ! 0])[0 := None] \<rparr>
                   else res2))"

text \<open>
  Equality of the stored row and the trusted row as the specification's table words it
  (section 4.7): "all of: number, GER, LER, state-root, coinbase, L2 data, and
  \<open>wip == !trusted.closed\<close>".
\<close>

definition equal_rows :: "state_Batch \<Rightarrow> types_Batch \<Rightarrow> bool" where
  "equal_rows sb tb \<longleftrightarrow>
     state_Batch.BatchNumber sb = Number tb
     \<and> state_Batch.GlobalExitRoot sb = types_Batch.GlobalExitRoot tb
     \<and> state_Batch.LocalExitRoot sb = types_Batch.LocalExitRoot tb
     \<and> state_Batch.StateRoot sb = types_Batch.StateRoot tb
     \<and> state_Batch.Coinbase sb = types_Batch.Coinbase tb
     \<and> state_Batch.BatchL2Data sb = types_Batch.BatchL2Data tb
     \<and> WIP sb = (\<not> Closed tb)"

section \<open>The finalizer and its collaborators\<close>

text \<open>
  What the code does beyond computing values is kept as a list of actions in the order
  the code performs them: a line written to the log, an event stored through
  \<open>eventLog.LogEvent\<close>, a call of \<open>Halt\<close>, and a goroutine with the actions it performs
  on its own.
\<close>

datatype log_level = log_Debug | log_Info | log_Error

datatype CallerLabel = SequencerCallerLabel | DiscardCallerLabel

type_synonym L1InfoTreeData = "(u32 \<times> bytes) list"

text \<open>\<open>state.ProcessRequest\<close>, with the fields \<open>reprocessFullBatch\<close> fills.\<close>

record ProcessRequest =
  BatchNumber :: u64
  L1InfoRoot_V2 :: Hash
  OldStateRoot :: Hash
  Transactions :: bytes
  Coinbase :: Address
  TimestampLimit_V2 :: u64
  ForkID :: u64
  SkipVerifyL1InfoRoot_V2 :: bool
  Caller :: CallerLabel
  L1InfoTreeData_V2 :: L1InfoTreeData

text \<open>
  The constants of the \<open>event\<close> package; each type has a last constructor for the
  values this code never builds.
\<close>

datatype Source = Source_Node | Source_other string
datatype Component = Component_Sequencer | Component_other string
datatype Level = Level_Critical | Level_other string
datatype EventID = EventID_ReprocessFullBatchOOC | EventID_other string

record Event =
  ReceivedAt :: nat
  Source :: Source
  Component :: Component
  Level :: Level
  EventID :: EventID
  Description :: string
  Json :: ProcessRequest

datatype action =
  Log log_level string
  | LogEvent Event
  | HaltCalled error
  | Go "action list"

text \<open>A call either returns a value or ends in \<open>Halt\<close>.\<close>

datatype 'a outcome = Returned 'a | Halted

text \<open>
  Modelled from the spec: \<open>Halt\<close>, a method of the finalizer declared outside the given
  files. Section 4.4.3: the controller calls \<open>Halt(ctx, err)\<close>, "which logs and terminates
  the process"; section 5: "\<open>Halt\<close> is terminal and is not itself cancellable". So a call
  of \<open>Halt\<close> is recorded and nothing of the caller runs after it.
\<close>

definition Halt :: "error \<Rightarrow> action list \<times> 'a outcome" where
  "Halt err = ([HaltCalled err], Halted)"

text \<open>
  Modelled from the spec: \<open>BatchResources.Sub\<close> of the state package, declared outside
  the given files. Section 4.1: "if any component of \<open>self\<close> is less than \<open>other\<close>, leave
  \<open>self\<close> unmodified and fail; else subtract component-wise". The result is the error or
  the new value of the receiver.
\<close>

definition Sub :: "BatchResources \<Rightarrow> BatchResources \<Rightarrow> error + BatchResources" where
  "Sub self other =
     (if Bytes self < Bytes other
         \<or> GasUsed (ZKCounters self) < GasUsed (ZKCounters other)
         \<or> UsedKeccakHashes (ZKCounters self) < UsedKeccakHashes (ZKCounters other)
         \<or> UsedPoseidonHashes (ZKCounters self) < UsedPoseidonHashes (ZKCounters other)
         \<or> UsedPoseidonPaddings (ZKCounters self) < UsedPoseidonPaddings (ZKCounters other)
         \<or> UsedMemAligns (ZKCounters self) < UsedMemAligns (ZKCounters other)
         \<or> UsedArithmetics (ZKCounters self) < UsedArithmetics (ZKCounters other)
         \<or> UsedBinaries (ZKCounters self) < UsedBinaries (ZKCounters other)
         \<or> UsedSteps (ZKCounters self) < UsedSteps (ZKCounters other)
         \<or> UsedSha256Hashes_V2 (ZKCounters self) < UsedSha256Hashes_V2 (ZKCounters other)
      then Inl ErrResourceOverflow
      else Inr \<lparr> ZKCounters = \<lparr>
                   GasUsed = GasUsed (ZKCounters self) - GasUsed (ZKCounters other),
                   UsedKeccakHashes = UsedKeccakHashes (ZKCounters self) - UsedKeccakHashes (ZKCounters other),
                   UsedPoseidonHashes = UsedPoseidonHashes (ZKCounters self) - UsedPoseidonHashes (ZKCounters other),
                   UsedPoseidonPaddings = UsedPoseidonPaddings (ZKCounters self) - UsedPoseidonPaddings (ZKCounters other),
                   UsedMemAligns = UsedMemAligns (ZKCounters self) - UsedMemAligns (ZKCounters other),
                   UsedArithmetics = UsedArithmetics (ZKCounters self) - UsedArithmetics (ZKCounters other),
                   UsedBinaries = UsedBinaries (ZKCounters self) - UsedBinaries (ZKCounters other),
                   UsedSteps = UsedSteps (ZKCounters self) - UsedSteps (ZKCounters other),
                   UsedSha256Hashes_V2 = UsedSha256Hashes_V2 (ZKCounters self) - UsedSha256Hashes_V2 (ZKCounters other) \<rparr>,
                 Bytes = Bytes self - Bytes other \<rparr>)"

text \<open>What \<open>state.DecodeBatchV2\<close> returns: blocks, each with the hashes of its transactions.\<close>

record L2BlockRaw =
  Transactions :: "Hash list"

record BatchRawV2 =
  Blocks :: "L2BlockRaw list"

record ProcessingReceipt =
  BatchNumber :: u64
  BatchResources :: BatchResources
  ClosingReason :: ClosingReason

text \<open>
  The work-in-progress L2 block is declared outside the given files; the code here asks
  it \<open>isEmpty()\<close> and reads \<open>l1InfoTreeExitRoot.GlobalExitRoot.GlobalExitRoot\<close>.
\<close>

record L2Block =
  l2block_isEmpty :: bool
  l1InfoTreeExitRoot :: Hash

record Config =
  ResourcePercentageToCloseBatch :: u32
  SequentialReprocessFullBatch :: bool

text \<open>The fields of the finalizer that batch.go reads or writes. \<open>wipBatch\<close> is a pointer
  that is never nil once \<open>initWIPBatch\<close> has run.\<close>

record finalizer =
  cfg :: Config
  batchConstraints :: BatchConstraintsCfg
  sequencerAddress :: Address
  wipBatch :: Batch
  wipL2Block :: L2Block
  nextForcedBatches :: "u64 list"

text \<open>
  The answers of the store during one database transaction: \<open>BeginStateTransaction\<close>,
  the operation inside it, \<open>Rollback\<close> and \<open>Commit\<close>. \<open>None\<close> is a nil error.
\<close>

record dbTx =
  BeginStateTransaction :: "error option"
  OpenWIPBatch :: "state_Batch \<Rightarrow> error option"
  CloseWIPBatch :: "ProcessingReceipt \<Rightarrow> error option"
  Rollback :: "error option"
  Commit :: "error option"

text \<open>
  The collaborators of one run, as the answers they give: the store, the executor, the
  decoder of batch data, the JSON encoder, the event log, the clock, the synchronizer
  (\<open>isSynced n\<close> is the answer to poll number \<open>n\<close>), the methods of the finalizer that are
  declared in other files, and the two package values \<open>mockL1InfoRoot\<close> and
  \<open>l2BlockUsedResources\<close>. Within one run each of them is called at most once with a
  given argument, except the store's transactions, which have one record each, and the
  clock, which has one reading for the run.
\<close>

record env =
  GetLastNBatches :: "nat \<Rightarrow> error + state_Batch list"
  GetBatchByNumber :: "u64 \<Rightarrow> error + state_Batch"
  GetForkIDByBatchNumber :: "u64 \<Rightarrow> u64"
  GetL1InfoTreeDataFromBatchL2Data :: "bytes \<Rightarrow> error + L1InfoTreeData"
  ProcessBatchV2 :: "ProcessRequest \<Rightarrow> error + ProcessBatchResponse"
  DecodeBatchV2 :: "bytes \<Rightarrow> error + BatchRawV2"
  json_Marshal :: "ProcessRequest \<Rightarrow> error + string"
  eventLog_LogEvent :: "Event \<Rightarrow> error option"
  time_Now :: nat
  isSynced :: "nat \<Rightarrow> bool"
  closeTx :: dbTx
  openTx :: dbTx
  finalizeL2Block :: "finalizer \<Rightarrow> finalizer"
  processTransaction :: "finalizer \<Rightarrow> error option \<times> finalizer"
  processForcedBatches :: "finalizer \<Rightarrow> u64 \<Rightarrow> Hash \<Rightarrow> (u64 \<times> Hash) \<times> finalizer"
  initWIPL2Block :: "finalizer \<Rightarrow> finalizer"
  mockL1InfoRoot :: Hash
  l2BlockUsedResources :: BatchResources

section \<open>Last state root\<close>

definition getLastStateRoot :: "env \<Rightarrow> Hash \<times> error option" where
  "getLastStateRoot e =
     (case GetLastNBatches e 2 of
        Inl err \<Rightarrow> (0, Some (fmt_Errorf ''failed to get last %d batches, err: %w'' [err]))
      | Inr batches \<Rightarrow>
          (let oldStateRoot =
                 (if length batches = 1 then state_Batch.StateRoot (batches ! 0)
                  else if length batches = 2 then state_Batch.StateRoot (batches ! 1)
                  else 0)
           in (oldStateRoot, None)))"

section \<open>Closing-reason classifier\<close>

text \<open>
  \<open>isBatchResourcesExhausted\<close> returns the boolean; the name of the resource goes to the
  log line, which is written only when the result is true; the closing reason is a field of
  the batch. The result here is the boolean, the local \<open>resourceDesc\<close>, the log and the
  finalizer afterwards.
\<close>

definition isBatchResourcesExhausted :: "finalizer \<Rightarrow> bool \<times> string \<times> action list \<times> finalizer" where
  "isBatchResourcesExhausted f =
     (let resources = remainingResources (wipBatch f);
          zkCounters = ZKCounters resources;
          pct = ResourcePercentageToCloseBatch (cfg f);
          (resourceDesc, result) =
            (if Bytes resources \<le> getConstraintThresholdUint64 pct (MaxBatchBytesSize (batchConstraints f))
               then (''MaxBatchBytesSize'', True)
             else if UsedSteps zkCounters \<le> getConstraintThresholdUint32 pct (MaxSteps (batchConstraints f))
               then (''MaxSteps'', True)
             else if UsedPoseidonPaddings zkCounters \<le> getConstraintThresholdUint32 pct (MaxPoseidonPaddings (batchConstraints f))
               then (''MaxPoseidonPaddings'', True)
             else if UsedBinaries zkCounters \<le> getConstraintThresholdUint32 pct (MaxBinaries (batchConstraints f))
               then (''MaxBinaries'', True)
             else if UsedKeccakHashes zkCounters \<le> getConstraintThresholdUint32 pct (MaxKeccakHashes (batchConstraints f))
               then (''MaxKeccakHashes'', True)
             else if UsedArithmetics zkCounters \<le> getConstraintThresholdUint32 pct (MaxArithmetics (batchConstraints f))
               then (''MaxArithmetics'', True)
             else if UsedMemAligns zkCounters \<le> getConstraintThresholdUint32 pct (MaxMemAligns (batchConstraints f))
               then (''MaxMemAligns'', True)
             else if GasUsed zkCounters \<le> getConstraintThresholdUint64 pct (MaxCumulativeGasUsed (batchConstraints f))
               then (''MaxCumulativeGasUsed'', True)
             else if UsedSha256Hashes_V2 zkCounters \<le> getConstraintThresholdUint32 pct (MaxSHA256Hashes (batchConstraints f))
               then (''MaxSHA256Hashes'', True)
             else ([], False))
      in if result
         then (result, resourceDesc,
               [Log log_Info (''closing batch %d, because it reached '' @ resourceDesc @ '' limit'')],
               f\<lparr> wipBatch := (wipBatch f)\<lparr> closingReason := BatchAlmostFullClosingReason \<rparr> \<rparr>)
         else (result, resourceDesc, [], f))"

section \<open>Sanity reprocessor\<close>

text \<open>
  The closure \<open>reprocessError\<close> (lines 366-386). With no batch it returns at once; when
  the batch data does not decode it logs and returns; otherwise it logs the batch, one
  line for each transaction of each block, and calls \<open>Halt\<close>.
\<close>

definition reprocessError :: "env \<Rightarrow> state_Batch option \<Rightarrow> action list \<times> unit outcome" where
  "reprocessError e batch =
     (case batch of
        None \<Rightarrow> ([], Returned ())
      | Some b \<Rightarrow>
          (case DecodeBatchV2 e (state_Batch.BatchL2Data b) of
             Inl err \<Rightarrow>
               ([Log log_Error ''[reprocessFullBatch] error decoding BatchL2Data for batch %d. Error: %s''],
                Returned ())
           | Inr rawL2Blocks \<Rightarrow>
               (let (halt_actions, halt_outcome) =
                      Halt (fmt_Errorf ''error reprocessing full batch (sanity check). Check previous errors in logs to know which was the cause'' [])
                in ([Log log_Info ''[reprocessFullBatch] BatchNumber: %d, InitialStateRoot: %s, ExpectedNewStateRoot: %s'']
                    @ concat (map (\<lambda>rawL2block.
                         map (\<lambda>rawTx. Log log_Info ''[reprocessFullBatch] BatchNumber: %d, block position: % d, tx position %d, tx hash: %s'')
                           (L2BlockRaw.Transactions rawL2block))
                        (Blocks rawL2Blocks))
                    @ halt_actions,
                    halt_outcome))))"

text \<open>The request \<open>reprocessFullBatch\<close> sends to the executor (lines 397-413).\<close>

definition executorBatchRequest ::
  "env \<Rightarrow> finalizer \<Rightarrow> state_Batch \<Rightarrow> Hash \<Rightarrow> L1InfoTreeData \<Rightarrow> ProcessRequest" where
  "executorBatchRequest e f batch initialStateRoot' l1InfoTreeData =
     \<lparr> ProcessRequest.BatchNumber = state_Batch.BatchNumber batch,
       L1InfoRoot_V2 = mockL1InfoRoot e,
       OldStateRoot = initialStateRoot',
       Transactions = state_Batch.BatchL2Data batch,
       Coinbase = state_Batch.Coinbase batch,
       TimestampLimit_V2 = of_nat (time_Now e),
       ForkID = GetForkIDByBatchNumber e (state_Batch.BatchNumber batch),
       SkipVerifyL1InfoRoot_V2 = True,
       Caller = (if SequentialReprocessFullBatch (cfg f) then SequencerCallerLabel else DiscardCallerLabel),
       L1InfoTreeData_V2 = l1InfoTreeData \<rparr>"

text \<open>
  \<open>reprocessFullBatch\<close> (lines 365-469): the actions it performs and either the pair it
  returns, response and error, or \<open>Halted\<close>.
\<close>

definition reprocessFullBatch ::
  "env \<Rightarrow> finalizer \<Rightarrow> u64 \<Rightarrow> Hash \<Rightarrow> Hash \<Rightarrow>
   action list \<times> (ProcessBatchResponse option \<times> error option) outcome" where
  "reprocessFullBatch e f batchNum initialStateRoot' expectedNewStateRoot =
     (let start = [Log log_Debug ''[reprocessFullBatch] reprocessing batch: %d, InitialStateRoot: %s, ExpectedNewStateRoot: %s'']
      in case GetBatchByNumber e batchNum of
        Inl err \<Rightarrow>
          (case reprocessError e None of
             (acts, Halted) \<Rightarrow>
               (start @ [Log log_Error ''[reprocessFullBatch] failed to get batch %d. Error: %w''] @ acts, Halted)
           | (acts, Returned _) \<Rightarrow>
               (start @ [Log log_Error ''[reprocessFullBatch] failed to get batch %d. Error: %w''] @ acts,
                Returned (None, Some ErrGetBatchByNumber)))
      | Inr batch \<Rightarrow>
          (case GetL1InfoTreeDataFromBatchL2Data e (state_Batch.BatchL2Data batch) of
             Inl err \<Rightarrow>
               (case reprocessError e None of
                  (acts, Halted) \<Rightarrow>
                    (start @ [Log log_Error ''[reprocessFullBatch] failed to get L1InfoTreeData for batch %d. Error: %w''] @ acts, Halted)
                | (acts, Returned _) \<Rightarrow>
                    (start @ [Log log_Error ''[reprocessFullBatch] failed to get L1InfoTreeData for batch %d. Error: %w''] @ acts,
                     Returned (None, Some ErrGetBatchByNumber)))
           | Inr l1InfoTreeData \<Rightarrow>
               (let request = executorBatchRequest e f batch initialStateRoot' l1InfoTreeData
                in case ProcessBatchV2 e request of
                  Inl err \<Rightarrow>
                    (case reprocessError e (Some batch) of
                       (acts, Halted) \<Rightarrow>
                         (start @ [Log log_Error ''[reprocessFullBatch] failed to process batch %d. Error: %s''] @ acts, Halted)
                     | (acts, Returned _) \<Rightarrow>
                         (start @ [Log log_Error ''[reprocessFullBatch] failed to process batch %d. Error: %s''] @ acts,
                          Returned (None, Some ErrProcessBatch)))
                | Inr result \<Rightarrow>
                    if ExecutorError result \<noteq> None then
                      (case reprocessError e (Some batch) of
                         (acts, Halted) \<Rightarrow>
                           (start @ [Log log_Error ''[reprocessFullBatch] executor error when reprocessing batch %d, error: %s''] @ acts, Halted)
                       | (acts, Returned _) \<Rightarrow>
                           (start @ [Log log_Error ''[reprocessFullBatch] executor error when reprocessing batch %d, error: %s''] @ acts,
                            Returned (None, Some ErrExecutorError)))
                    else if IsRomOOCError result then
                      (case reprocessError e (Some batch) of
                         (acts, Halted) \<Rightarrow>
                           (start @ [Log log_Error ''[reprocessFullBatch] failed to process batch %d because OutOfCounters''] @ acts, Halted)
                       | (acts, Returned _) \<Rightarrow>
                           (let event_actions =
                                  (case json_Marshal e request of
                                     Inl err \<Rightarrow> [Log log_Error ''[reprocessFullBatch] error marshaling payload: %s'']
                                   | Inr payload \<Rightarrow>
                                       (let event = \<lparr> ReceivedAt = time_Now e,
                                                      Source = Source_Node,
                                                      Component = Component_Sequencer,
                                                      Level = Level_Critical,
                                                      EventID = EventID_ReprocessFullBatchOOC,
                                                      Description = payload,
                                                      Json = request \<rparr>
                                        in LogEvent event #
                                           (case eventLog_LogEvent e event of
                                              Some err \<Rightarrow> [Log log_Error ''[reprocessFullBatch] error storing payload: %s'']
                                            | None \<Rightarrow> [])))
                            in (start @ [Log log_Error ''[reprocessFullBatch] failed to process batch %d because OutOfCounters'']
                                  @ acts @ event_actions,
                                Returned (None, Some ErrProcessBatchOOC))))
                    else if NewStateRoot result \<noteq> expectedNewStateRoot then
                      (case reprocessError e (Some batch) of
                         (acts, Halted) \<Rightarrow>
                           (start @ [Log log_Error ''[reprocessFullBatch] new state root mismatch for batch %d, expected: %s, got: %s''] @ acts, Halted)
                       | (acts, Returned _) \<Rightarrow>
                           (start @ [Log log_Error ''[reprocessFullBatch] new state root mismatch for batch %d, expected: %s, got: %s''] @ acts,
                            Returned (None, Some ErrStateRootNoMatch)))
                    else
                      (start @ [Log log_Info ''[reprocessFullBatch]: reprocess successfully done for batch %d''],
                       Returned (Some result, None)))))"

section \<open>Closing and opening the work-in-progress batch\<close>

text \<open>\<open>closeWIPBatch\<close> (lines 316-352): the log and the error it returns.\<close>

definition closeWIPBatch :: "dbTx \<Rightarrow> finalizer \<Rightarrow> action list \<times> error option" where
  "closeWIPBatch tx f =
     (let usedResources = getUsedBatchResources (batchConstraints f) (remainingResources (wipBatch f));
          receipt = \<lparr> ProcessingReceipt.BatchNumber = batchNumber (wipBatch f),
                      BatchResources = usedResources,
                      ClosingReason = closingReason (wipBatch f) \<rparr>
      in case BeginStateTransaction tx of
           Some err \<Rightarrow> ([], Some err)
         | None \<Rightarrow>
             (case CloseWIPBatch tx receipt of
                Some err \<Rightarrow>
                  (case Rollback tx of
                     Some err2 \<Rightarrow> ([Log log_Error ''[CloseWIPBatch] error rolling back: %v''], Some err)
                   | None \<Rightarrow> ([], Some err))
              | None \<Rightarrow>
                  (case Commit tx of
                     Some err \<Rightarrow> ([Log log_Error ''[CloseWIPBatch] error committing: %v''], Some err)
                   | None \<Rightarrow> ([], None))))"

text \<open>
  The loop \<open>for !f.isSynced(ctx) { log; sleep }\<close> (lines 297-300) may run forever: it is
  a partial function whose value is the number of polls that answered false, and
  \<open>None\<close> when no poll ever answers true.
\<close>

partial_function (option) waitSynced :: "(nat \<Rightarrow> bool) \<Rightarrow> nat \<Rightarrow> nat option" where
  "waitSynced polls n = (if polls n then Some n else waitSynced polls (Suc n))"

text \<open>
  \<open>openNewWIPBatch\<close> (lines 267-313): \<open>None\<close> when the wait for the synchronizer never
  ends, otherwise the log, the new batch and the error.
\<close>

definition openNewWIPBatch ::
  "env \<Rightarrow> finalizer \<Rightarrow> u64 \<Rightarrow> Hash \<Rightarrow> Hash \<Rightarrow> Hash \<Rightarrow>
   (action list \<times> Batch option \<times> error option) option" where
  "openNewWIPBatch e f batchNumber' ger stateRoot LER =
     (let newStateBatch =
            \<lparr> state_Batch.BatchNumber = batchNumber',
              Coinbase = sequencerAddress f,
              BatchL2Data = [],
              StateRoot = stateRoot,
              LocalExitRoot = LER,
              AccInputHash = 0,
              Timestamp = time_Now e,
              GlobalExitRoot = ger,
              WIP = False,
              Resources = \<lparr> ZKCounters = \<lparr> GasUsed = 0, UsedKeccakHashes = 0, UsedPoseidonHashes = 0,
                              UsedPoseidonPaddings = 0, UsedMemAligns = 0, UsedArithmetics = 0,
                              UsedBinaries = 0, UsedSteps = 0, UsedSha256Hashes_V2 = 0 \<rparr>,
                            Bytes = 0 \<rparr> \<rparr>
      in case BeginStateTransaction (openTx e) of
           Some err \<Rightarrow>
             Some ([], None, Some (fmt_Errorf ''failed to begin state transaction to open batch, err: %w'' [err]))
         | None \<Rightarrow>
             (case OpenWIPBatch (openTx e) newStateBatch of
                Some err \<Rightarrow>
                  (case Rollback (openTx e) of
                     Some rollbackErr \<Rightarrow>
                       Some ([], None, Some (fmt_Errorf ''failed to rollback dbTx: %s. Error: %w'' [rollbackErr, err]))
                   | None \<Rightarrow>
                       Some ([], None, Some (fmt_Errorf ''failed to open new wip batch. Error: %w'' [err])))
              | None \<Rightarrow>
                  (case Commit (openTx e) of
                     Some err \<Rightarrow>
                       Some ([], None, Some (fmt_Errorf ''failed to commit database transaction for opening a wip batch. Error: %w'' [err]))
                   | None \<Rightarrow>
                       (case waitSynced (isSynced e) 0 of
                          None \<Rightarrow> None
                        | Some polls \<Rightarrow>
                            Some (replicate polls (Log log_Info ''wait for synchronizer to sync last batch''),
                                  Some \<lparr> batchNumber = state_Batch.BatchNumber newStateBatch,
                                         coinbase = state_Batch.Coinbase newStateBatch,
                                         timestamp = state_Batch.Timestamp newStateBatch,
                                         initialStateRoot = state_Batch.StateRoot newStateBatch,
                                         imStateRoot = state_Batch.StateRoot newStateBatch,
                                         finalStateRoot = state_Batch.StateRoot newStateBatch,
                                         localExitRoot = state_Batch.LocalExitRoot newStateBatch,
                                         countOfTxs = 0,
                                         remainingResources = getMaxRemainingResources (batchConstraints f),
                                         closingReason = EmptyClosingReason \<rparr>,
                                  None)))))"

text \<open>
  \<open>closeAndOpenNewWIPBatch\<close> (lines 158-264), in four steps that follow the code: the
  part after the batch is closed (lines 239-263), the closing (lines 202-208), the sanity
  check (lines 187-200) and the beginning (lines 159-185). Each gives \<open>None\<close> when the
  wait inside \<open>openNewWIPBatch\<close> never ends, otherwise the actions, then \<open>Halted\<close> or the
  returned pair of batch and error, and the finalizer as the call leaves it. Waiting on the
  two wait groups has no result and shows as its log line. The goroutine of lines 197-199
  shows as one action \<open>Go\<close> that holds the actions of its body, with the fields of
  \<open>f.wipBatch\<close> read when it is started.
\<close>

definition openAfterClose ::
  "env \<Rightarrow> finalizer \<Rightarrow> (action list \<times> (Batch option \<times> error option) outcome \<times> finalizer) option" where
  "openAfterClose e f =
     (let stateRoot = finalStateRoot (wipBatch f);
          lastBatchNumber = batchNumber (wipBatch f);
          ((lastBatchNumber, stateRoot), f) =
            (if length (nextForcedBatches f) > 0
             then (let (r, f') = processForcedBatches e f lastBatchNumber stateRoot
                   in (r, initWIPL2Block e f'))
             else ((lastBatchNumber, stateRoot), f));
          currentGER = l1InfoTreeExitRoot (wipL2Block f)
      in case openNewWIPBatch e f (lastBatchNumber + 1) currentGER stateRoot (localExitRoot (wipBatch f)) of
           None \<Rightarrow> None
         | Some (acts, batch, Some err) \<Rightarrow>
             Some (acts, Returned (None, Some (fmt_Errorf ''failed to open new wip batch. Error: %s'' [err])), f)
         | Some (acts, batch, None) \<Rightarrow>
             (case Sub (remainingResources (wipBatch f)) (l2BlockUsedResources e) of
                Inl err \<Rightarrow>
                  Some (acts,
                        Returned (None, Some (fmt_Errorf ''failed to subtract L2 block used resources to wip batch %d. Error: %s'' [err])),
                        f)
              | Inr remaining \<Rightarrow>
                  Some (acts, Returned (batch, None),
                        f\<lparr> wipBatch := (wipBatch f)\<lparr> remainingResources := remaining \<rparr> \<rparr>)))"

definition closeThenOpen ::
  "env \<Rightarrow> finalizer \<Rightarrow> (action list \<times> (Batch option \<times> error option) outcome \<times> finalizer) option" where
  "closeThenOpen e f =
     (case closeWIPBatch (closeTx e) f of
        (acts, Some err) \<Rightarrow>
          Some (acts, Returned (None, Some (fmt_Errorf ''failed to close batch, err: %w'' [err])), f)
      | (acts, None) \<Rightarrow>
          (case openAfterClose e f of
             None \<Rightarrow> None
           | Some (acts', r, f') \<Rightarrow> Some (acts @ [Log log_Info ''batch %d closed''] @ acts', r, f')))"

definition reprocessThenClose ::
  "env \<Rightarrow> finalizer \<Rightarrow> (action list \<times> (Batch option \<times> error option) outcome \<times> finalizer) option" where
  "reprocessThenClose e f =
     (let reprocess = reprocessFullBatch e f (batchNumber (wipBatch f))
                        (initialStateRoot (wipBatch f)) (finalStateRoot (wipBatch f))
      in if SequentialReprocessFullBatch (cfg f) then
           (case reprocess of
              (acts, Halted) \<Rightarrow> Some (acts, Halted, f)
            | (acts, Returned (_, Some err)) \<Rightarrow>
                Some (acts,
                      Returned (None, Some (fmt_Errorf ''halting Sequencer because of error reprocessing full batch %d (sanity check). Error: %s '' [err])),
                      f)
            | (acts, Returned (_, None)) \<Rightarrow>
                (case closeThenOpen e f of
                   None \<Rightarrow> None
                 | Some (acts', r, f') \<Rightarrow> Some (acts @ acts', r, f')))
         else
           (case closeThenOpen e f of
              None \<Rightarrow> None
            | Some (acts', r, f') \<Rightarrow> Some (Go (fst reprocess) # acts', r, f')))"

definition closeAndOpenNewWIPBatch ::
  "env \<Rightarrow> finalizer \<Rightarrow> (action list \<times> (Batch option \<times> error option) outcome \<times> finalizer) option" where
  "closeAndOpenNewWIPBatch e f =
     (let f = (if \<not> l2block_isEmpty (wipL2Block f) then finalizeL2Block e f else f);
          waits = [Log log_Debug ''waiting for pending L2 blocks to be processed took: %s'',
                   Log log_Debug ''waiting for pending L2 blocks to be stored took: %s'']
      in if initialStateRoot (wipBatch f) = finalStateRoot (wipBatch f) then
           (case processTransaction e f of
              (Some err, f') \<Rightarrow>
                Some (waits @ [Log log_Info ''reprocessing batch because the state root has not changed...''],
                      Returned (None, Some err), f')
            | (None, f') \<Rightarrow>
                (case reprocessThenClose e f' of
                   None \<Rightarrow> None
                 | Some (acts, r, f'') \<Rightarrow>
                     Some (waits @ [Log log_Info ''reprocessing batch because the state root has not changed...''] @ acts,
                           r, f'')))
         else
           (case reprocessThenClose e f of
              None \<Rightarrow> None
            | Some (acts, r, f') \<Rightarrow> Some (waits @ acts, r, f')))"

text \<open>
  \<open>finalizeBatch\<close> (lines 142-155) stores the returned batch in \<open>f.wipBatch\<close> and calls
  \<open>Halt\<close> when there is an error; the metric of the deferred function is not kept. A nil
  batch with a nil error would make line 154 read through a nil pointer, which stops the
  process: it shows as \<open>Halted\<close> with no call of \<open>Halt\<close>.
\<close>

definition finalizeBatch ::
  "env \<Rightarrow> finalizer \<Rightarrow> (action list \<times> unit outcome \<times> finalizer) option" where
  "finalizeBatch e f =
     (case closeAndOpenNewWIPBatch e f of
        None \<Rightarrow> None
      | Some (acts, Halted, f') \<Rightarrow> Some (acts, Halted, f')
      | Some (acts, Returned (batch, Some err), f') \<Rightarrow>
          (let (halt_actions, halt_outcome) =
                 Halt (fmt_Errorf ''failed to create new WIP batch. Error: %s'' [err])
           in Some (acts @ halt_actions, halt_outcome, f'))
      | Some (acts, Returned (None, None), f') \<Rightarrow> Some (acts, Halted, f')
      | Some (acts, Returned (Some batch, None), f') \<Rightarrow>
          Some (acts @ [Log log_Info ''new WIP batch %d''], Returned (), f'\<lparr> wipBatch := batch \<rparr>))"

text \<open>Reading a list of actions.\<close>

fun is_HaltCalled :: "action \<Rightarrow> bool" where
  "is_HaltCalled (HaltCalled err) = True"
| "is_HaltCalled other = False"

fun is_LogEvent :: "action \<Rightarrow> bool" where
  "is_LogEvent (LogEvent ev) = True"
| "is_LogEvent other = False"

fun is_log_Error :: "action \<Rightarrow> bool" where
  "is_log_Error (Log log_Error line) = True"
| "is_log_Error other = False"

text \<open>
  The four failure classes of the sanity check (section 4.6 of the specification), read
  from the answer of the executor: the call failed, the executor reported an error, the
  ROM ran out of counters, or the new state root is not the expected one.
\<close>

definition sanity_check_fails :: "error + ProcessBatchResponse \<Rightarrow> Hash \<Rightarrow> bool" where
  "sanity_check_fails answer expected =
     (case answer of
        Inl err \<Rightarrow> True
      | Inr result \<Rightarrow>
          ExecutorError result \<noteq> None \<or> IsRomOOCError result \<or> NewStateRoot result \<noteq> expected)"

section \<open>Example inputs\<close>

text \<open>
  Concrete inputs on which the theorems below are evaluated: the constraints of a
  node configuration, a freshly opened batch, a finalizer that closes at 10 percent,
  renderings of hashes and addresses, a stored batch, a trusted batch, an executor
  response and an environment in which every collaborator succeeds.
\<close>

definition constraints0 :: BatchConstraintsCfg where
  "constraints0 =
     \<lparr> MaxTxsPerBatch = 300, MaxBatchBytesSize = 120000, MaxCumulativeGasUsed = 30000000,
       MaxKeccakHashes = 2145, MaxPoseidonHashes = 252357, MaxPoseidonPaddings = 135191,
       MaxMemAligns = 236585, MaxArithmetics = 236585, MaxBinaries = 473170,
       MaxSteps = 7570538, MaxSHA256Hashes = 1596 \<rparr>"

definition batch0 :: Batch where
  "batch0 =
     \<lparr> batchNumber = 10, coinbase = 1, timestamp = 1000, initialStateRoot = 7,
       imStateRoot = 8, finalStateRoot = 8, localExitRoot = 3, countOfTxs = 2,
       remainingResources = getMaxRemainingResources constraints0,
       closingReason = EmptyClosingReason \<rparr>"

definition finalizer0 :: finalizer where
  "finalizer0 =
     \<lparr> cfg = \<lparr> ResourcePercentageToCloseBatch = 10, SequentialReprocessFullBatch = True \<rparr>,
       batchConstraints = constraints0,
       sequencerAddress = 1,
       wipBatch = batch0,
       wipL2Block = \<lparr> l2block_isEmpty = True, l1InfoTreeExitRoot = 5 \<rparr>,
       nextForcedBatches = [] \<rparr>"

text \<open>
  The same finalizer in the middle of a batch: about half of every resource is left, and
  100 of the 252357 poseidon hashes.
\<close>

definition remaining_poseidon :: BatchResources where
  "remaining_poseidon =
     \<lparr> ZKCounters = \<lparr> GasUsed = 15000000, UsedKeccakHashes = 1072, UsedPoseidonHashes = 100,
                      UsedPoseidonPaddings = 67595, UsedMemAligns = 118292,
                      UsedArithmetics = 118292, UsedBinaries = 236585, UsedSteps = 3785269,
                      UsedSha256Hashes_V2 = 798 \<rparr>,
       Bytes = 60000 \<rparr>"

definition finalizer_poseidon :: finalizer where
  "finalizer_poseidon = finalizer0\<lparr> wipBatch := batch0\<lparr> remainingResources := remaining_poseidon \<rparr> \<rparr>"

text \<open>The same finalizer with 901 of 1000 bytes used and a threshold of 10 percent.\<close>

definition finalizer_bytes :: finalizer where
  "finalizer_bytes =
     finalizer0\<lparr> batchConstraints := constraints0\<lparr> MaxBatchBytesSize := 1000 \<rparr>,
                 wipBatch := batch0\<lparr> remainingResources :=
                   (getMaxRemainingResources constraints0)\<lparr> Bytes := 99 \<rparr> \<rparr> \<rparr>"

text \<open>
  A finalizer that closes at 90 percent with a budget of 50000000 steps, of which 3000000
  are left; every other resource is untouched.
\<close>

definition finalizer_steps :: finalizer where
  "finalizer_steps =
     finalizer0\<lparr> cfg := \<lparr> ResourcePercentageToCloseBatch = 90, SequentialReprocessFullBatch = True \<rparr>,
                 batchConstraints := constraints0\<lparr> MaxSteps := 50000000 \<rparr>,
                 wipBatch := batch0\<lparr> remainingResources :=
                   (getMaxRemainingResources constraints0)\<lparr> ZKCounters :=
                      (ZKCounters (getMaxRemainingResources constraints0))\<lparr> UsedSteps := 3000000 \<rparr> \<rparr> \<rparr> \<rparr>"

definition hashStr0 :: "Hash \<Rightarrow> string" where
  "hashStr0 h = replicate (unat h) CHR ''x''"

definition addrStr0 :: "Address \<Rightarrow> string" where
  "addrStr0 a = replicate (unat a) CHR ''y''"

definition stateBatch0 :: state_Batch where
  "stateBatch0 =
     \<lparr> state_Batch.BatchNumber = 10, Coinbase = 1, BatchL2Data = [11, 115], StateRoot = 8,
       LocalExitRoot = 3, AccInputHash = 4, Timestamp = 1000, GlobalExitRoot = 5, WIP = False,
       Resources = getUsedBatchResources constraints0 (getMaxRemainingResources constraints0) \<rparr>"

definition prevBatch0 :: state_Batch where
  "prevBatch0 = stateBatch0\<lparr> state_Batch.BatchNumber := 9, state_Batch.StateRoot := 7,
                              state_Batch.AccInputHash := 6 \<rparr>"

definition trustedBatch0 :: types_Batch where
  "trustedBatch0 =
     \<lparr> Number = 10, Coinbase = 1, StateRoot = 8, GlobalExitRoot = 5, MainnetExitRoot = 0,
       RollupExitRoot = 0, LocalExitRoot = 3, AccInputHash = 4, Timestamp = 1000,
       Closed = True, BatchL2Data = [11, 115] \<rparr>"

definition response0 :: ProcessBatchResponse where
  "response0 =
     \<lparr> NewStateRoot = 8, NewLocalExitRoot = 3, NewAccInputHash = 4,
       UsedZkCounters = ZKCounters (getUsedBatchResources constraints0 (getMaxRemainingResources constraints0)),
       ExecutorError = None, IsRomOOCError = False \<rparr>"

definition dbTx0 :: dbTx where
  "dbTx0 =
     \<lparr> BeginStateTransaction = None, OpenWIPBatch = (\<lambda>b. None), CloseWIPBatch = (\<lambda>r. None),
       Rollback = None, Commit = None \<rparr>"

definition l2BlockUsedResources0 :: BatchResources where
  "l2BlockUsedResources0 =
     \<lparr> ZKCounters = \<lparr> GasUsed = 0, UsedKeccakHashes = 0, UsedPoseidonHashes = 256,
         UsedPoseidonPaddings = 0, UsedMemAligns = 0, UsedArithmetics = 1, UsedBinaries = 19,
         UsedSteps = 521, UsedSha256Hashes_V2 = 0 \<rparr>,
       Bytes = 9 \<rparr>"

definition env0 :: env where
  "env0 =
     \<lparr> GetLastNBatches = (\<lambda>n. Inr [stateBatch0, prevBatch0]),
       GetBatchByNumber = (\<lambda>n. Inr stateBatch0),
       GetForkIDByBatchNumber = (\<lambda>n. 7),
       GetL1InfoTreeDataFromBatchL2Data = (\<lambda>d. Inr []),
       ProcessBatchV2 = (\<lambda>r. Inr response0),
       DecodeBatchV2 = (\<lambda>d. Inr \<lparr> Blocks = [\<lparr> L2BlockRaw.Transactions = [21, 22] \<rparr>] \<rparr>),
       json_Marshal = (\<lambda>r. Inr ''{}''),
       eventLog_LogEvent = (\<lambda>ev. None),
       time_Now = 2000,
       isSynced = (\<lambda>n. True),
       closeTx = dbTx0,
       openTx = dbTx0,
       finalizeL2Block = (\<lambda>f. f),
       processTransaction = (\<lambda>f. (None, f)),
       processForcedBatches = (\<lambda>f n r. ((n, r), f)),
       initWIPL2Block = (\<lambda>f. f),
       mockL1InfoRoot = 99,
       l2BlockUsedResources = l2BlockUsedResources0 \<rparr>"

text \<open>
  Environments in which the sanity check fails: the executor cannot be called, reports
  an error, runs out of counters, or returns another state root; and the same with
  batch data that does not decode.
\<close>

definition env_invocation :: env where
  "env_invocation = env0\<lparr> ProcessBatchV2 := (\<lambda>r. Inl (errors_New ''executor unavailable'')) \<rparr>"

definition env_executor_error :: env where
  "env_executor_error =
     env0\<lparr> ProcessBatchV2 := (\<lambda>r. Inr (response0\<lparr> ExecutorError := Some (errors_New ''executor error'') \<rparr>)) \<rparr>"

definition env_ooc :: env where
  "env_ooc = env0\<lparr> ProcessBatchV2 := (\<lambda>r. Inr (response0\<lparr> IsRomOOCError := True \<rparr>)) \<rparr>"

definition env_mismatch :: env where
  "env_mismatch = env0\<lparr> ProcessBatchV2 := (\<lambda>r. Inr (response0\<lparr> NewStateRoot := 57005 \<rparr>)) \<rparr>"

definition undecodable :: "env \<Rightarrow> env" where
  "undecodable e = e\<lparr> DecodeBatchV2 := (\<lambda>d. Inl (errors_New ''invalid batch data'')) \<rparr>"

definition finalizer_async :: finalizer where
  "finalizer_async =
     finalizer0\<lparr> cfg := \<lparr> ResourcePercentageToCloseBatch = 10, SequentialReprocessFullBatch = False \<rparr> \<rparr>"

section \<open>Arithmetic of words\<close>

lemma unat_sub_add_cancel:
  fixes m r :: "'a::len word"
  assumes "r \<le> m"
  shows "unat (m - r) + unat r = unat m"
  using assms by (simp add: unat_sub word_le_nat_alt)

lemma wrapped_quotient_less:
  fixes x :: nat
  assumes "2 ^ 32 \<le> x"
  shows "x mod 2 ^ 32 div 100 < x div 100"
proof -
  have "x mod 2 ^ 32 \<le> x - 2 ^ 32"
    using assms by (metis le_mod_geq mod_less_eq_dividend)
  then have "x mod 2 ^ 32 + 100 \<le> x"
    using assms by simp
  then have "(x mod 2 ^ 32 + 100) div 100 \<le> x div 100"
    by (rule div_le_mono)
  then show ?thesis by simp
qed

lemma unat_ucast_32_64: "unat (ucast (p :: 32 word) :: 64 word) = unat p"
proof -
  have "unat p < 2 ^ 32" using unsigned_less [of p] by simp
  then have "unat p < 2 ^ 64" by simp
  then show ?thesis by (simp add: unsigned_ucast_eq take_bit_nat_eq_self)
qed

section \<open>Round trip of used and remaining resources\<close>

text \<open>
  C7. For every constraints value and every remaining value that is component-wise at
  most the maxima, the used resources computed by \<open>getUsedBatchResources\<close> plus the
  remaining ones give the component of \<open>getMaxRemainingResources\<close>, for the nine zk
  counters and for the bytes. The sums are sums of natural numbers: nothing wraps.
\<close>

theorem used_plus_remaining_is_max:
  assumes "within_constraints c r"
  shows "unat (GasUsed (ZKCounters (getUsedBatchResources c r))) + unat (GasUsed (ZKCounters r))
           = unat (GasUsed (ZKCounters (getMaxRemainingResources c)))
       \<and> unat (UsedKeccakHashes (ZKCounters (getUsedBatchResources c r))) + unat (UsedKeccakHashes (ZKCounters r))
           = unat (UsedKeccakHashes (ZKCounters (getMaxRemainingResources c)))
       \<and> unat (UsedPoseidonHashes (ZKCounters (getUsedBatchResources c r))) + unat (UsedPoseidonHashes (ZKCounters r))
           = unat (UsedPoseidonHashes (ZKCounters (getMaxRemainingResources c)))
       \<and> unat (UsedPoseidonPaddings (ZKCounters (getUsedBatchResources c r))) + unat (UsedPoseidonPaddings (ZKCounters r))
           = unat (UsedPoseidonPaddings (ZKCounters (getMaxRemainingResources c)))
       \<and> unat (UsedMemAligns (ZKCounters (getUsedBatchResources c r))) + unat (UsedMemAligns (ZKCounters r))
           = unat (UsedMemAligns (ZKCounters (getMaxRemainingResources c)))
       \<and> unat (UsedArithmetics (ZKCounters (getUsedBatchResources c r))) + unat (UsedArithmetics (ZKCounters r))
           = unat (UsedArithmetics (ZKCounters (getMaxRemainingResources c)))
       \<and> unat (UsedBinaries (ZKCounters (getUsedBatchResources c r))) + unat (UsedBinaries (ZKCounters r))
           = unat (UsedBinaries (ZKCounters (getMaxRemainingResources c)))
       \<and> unat (UsedSteps (ZKCounters (getUsedBatchResources c r))) + unat (UsedSteps (ZKCounters r))
           = unat (UsedSteps (ZKCounters (getMaxRemainingResources c)))
       \<and> unat (UsedSha256Hashes_V2 (ZKCounters (getUsedBatchResources c r))) + unat (UsedSha256Hashes_V2 (ZKCounters r))
           = unat (UsedSha256Hashes_V2 (ZKCounters (getMaxRemainingResources c)))
       \<and> unat (Bytes (getUsedBatchResources c r)) + unat (Bytes r)
           = unat (Bytes (getMaxRemainingResources c))"
  using assms
  by (simp add: within_constraints_def getUsedBatchResources_def getMaxRemainingResources_def
      unat_sub_add_cancel)

theorem used_plus_remaining_is_max_witness:
  "within_constraints
     \<lparr> MaxTxsPerBatch = 300, MaxBatchBytesSize = 120000, MaxCumulativeGasUsed = 30000000,
       MaxKeccakHashes = 2145, MaxPoseidonHashes = 252357, MaxPoseidonPaddings = 135191,
       MaxMemAligns = 236585, MaxArithmetics = 236585, MaxBinaries = 473170,
       MaxSteps = 7570538, MaxSHA256Hashes = 1596 \<rparr>
     \<lparr> ZKCounters = \<lparr> GasUsed = 29000000, UsedKeccakHashes = 2000, UsedPoseidonHashes = 252000,
         UsedPoseidonPaddings = 135000, UsedMemAligns = 236000, UsedArithmetics = 236000,
         UsedBinaries = 473000, UsedSteps = 7570000, UsedSha256Hashes_V2 = 1500 \<rparr>,
       Bytes = 119099 \<rparr>
   \<and> unat (Bytes (getUsedBatchResources
     \<lparr> MaxTxsPerBatch = 300, MaxBatchBytesSize = 120000, MaxCumulativeGasUsed = 30000000,
       MaxKeccakHashes = 2145, MaxPoseidonHashes = 252357, MaxPoseidonPaddings = 135191,
       MaxMemAligns = 236585, MaxArithmetics = 236585, MaxBinaries = 473170,
       MaxSteps = 7570538, MaxSHA256Hashes = 1596 \<rparr>
     \<lparr> ZKCounters = \<lparr> GasUsed = 29000000, UsedKeccakHashes = 2000, UsedPoseidonHashes = 252000,
         UsedPoseidonPaddings = 135000, UsedMemAligns = 236000, UsedArithmetics = 236000,
         UsedBinaries = 473000, UsedSteps = 7570000, UsedSha256Hashes_V2 = 1500 \<rparr>,
       Bytes = 119099 \<rparr>)) + unat (119099 :: u64) = 120000"
proof -
  let ?c = "\<lparr> MaxTxsPerBatch = 300, MaxBatchBytesSize = 120000, MaxCumulativeGasUsed = 30000000,
       MaxKeccakHashes = 2145, MaxPoseidonHashes = 252357, MaxPoseidonPaddings = 135191,
       MaxMemAligns = 236585, MaxArithmetics = 236585, MaxBinaries = 473170,
       MaxSteps = 7570538, MaxSHA256Hashes = 1596 \<rparr>"
  let ?r = "\<lparr> ZKCounters = \<lparr> GasUsed = 29000000, UsedKeccakHashes = 2000, UsedPoseidonHashes = 252000,
         UsedPoseidonPaddings = 135000, UsedMemAligns = 236000, UsedArithmetics = 236000,
         UsedBinaries = 473000, UsedSteps = 7570000, UsedSha256Hashes_V2 = 1500 \<rparr>,
       Bytes = 119099 \<rparr>"
  have h: "within_constraints ?c ?r"
    by (simp add: within_constraints_def)
  from used_plus_remaining_is_max [OF h] have "unat (Bytes (getUsedBatchResources ?c ?r)) + unat (Bytes ?r)
           = unat (Bytes (getMaxRemainingResources ?c))" by blast
  then show ?thesis using h by (simp add: getMaxRemainingResources_def)
qed

section \<open>Thresholds\<close>

text \<open>
  C8. \<open>getConstraintThresholdUint32\<close> and \<open>getConstraintThresholdUint64\<close> compute
  input times percentage modulo \<open>2 ^ 32\<close> and \<open>2 ^ 64\<close>, then divide by 100; in the
  32-bit case, whenever the exact product reaches \<open>2 ^ 32\<close> the returned threshold is
  strictly below the exact quotient.
\<close>

theorem threshold_wraps_around:
  "unat (getConstraintThresholdUint32 pct i32) = unat i32 * unat pct mod 2 ^ 32 div 100
   \<and> unat (getConstraintThresholdUint64 pct i64) = unat i64 * unat pct mod 2 ^ 64 div 100
   \<and> (2 ^ 32 \<le> unat i32 * unat pct \<longrightarrow>
        unat (getConstraintThresholdUint32 pct i32) < unat i32 * unat pct div 100)"
proof -
  have a: "unat (getConstraintThresholdUint32 pct i32) = unat i32 * unat pct mod 2 ^ 32 div 100"
    by (simp add: getConstraintThresholdUint32_def unat_div unat_word_ariths)
  have b: "unat (getConstraintThresholdUint64 pct i64) = unat i64 * unat pct mod 2 ^ 64 div 100"
    by (simp add: getConstraintThresholdUint64_def unat_div unat_word_ariths unat_ucast_32_64)
  show ?thesis
    using a b wrapped_quotient_less [of "unat i32 * unat pct"] by simp
qed

theorem threshold_wraps_around_witness:
  "(2::nat) ^ 32 \<le> unat (50000000 :: u32) * unat (90 :: u32)
   \<and> unat (getConstraintThresholdUint32 90 50000000) < unat (50000000 :: u32) * unat (90 :: u32) div 100
   \<and> unat (getConstraintThresholdUint32 90 50000000) = 2050327"
proof -
  have h: "(2::nat) ^ 32 \<le> unat (50000000 :: u32) * unat (90 :: u32)" by simp
  have e: "unat (getConstraintThresholdUint32 90 50000000) = 2050327"
    by (simp add: getConstraintThresholdUint32_def unat_div unat_word_ariths)
  from threshold_wraps_around [of 90 50000000] h
  have "unat (getConstraintThresholdUint32 90 50000000) < unat (50000000 :: u32) * unat (90 :: u32) div 100"
    by blast
  with h e show ?thesis by blast
qed

section \<open>Last state root\<close>

text \<open>
  C9. When \<open>GetLastNBatches\<close> succeeds with an empty list, \<open>getLastStateRoot\<close> returns the
  zero hash and a nil error; with exactly one batch it returns that batch's state root;
  with two it returns the state root of the second, the older one.
\<close>

theorem getLastStateRoot_by_length:
  "(GetLastNBatches e 2 = Inr [] \<longrightarrow> getLastStateRoot e = (ZeroHash, None))
   \<and> (GetLastNBatches e 2 = Inr [b] \<longrightarrow> getLastStateRoot e = (state_Batch.StateRoot b, None))
   \<and> (GetLastNBatches e 2 = Inr [b1, b2] \<longrightarrow> getLastStateRoot e = (state_Batch.StateRoot b2, None))"
  by (simp add: getLastStateRoot_def ZeroHash_def)

theorem getLastStateRoot_by_length_witness:
  "GetLastNBatches (env0\<lparr> GetLastNBatches := (\<lambda>n. Inr []) \<rparr>) 2 = Inr []
   \<and> getLastStateRoot (env0\<lparr> GetLastNBatches := (\<lambda>n. Inr []) \<rparr>) = (0, None)
   \<and> GetLastNBatches (env0\<lparr> GetLastNBatches := (\<lambda>n. Inr [stateBatch0]) \<rparr>) 2 = Inr [stateBatch0]
   \<and> getLastStateRoot (env0\<lparr> GetLastNBatches := (\<lambda>n. Inr [stateBatch0]) \<rparr>) = (8, None)
   \<and> GetLastNBatches env0 2 = Inr [stateBatch0, prevBatch0]
   \<and> getLastStateRoot env0 = (7, None)"
proof -
  have h0: "GetLastNBatches (env0\<lparr> GetLastNBatches := (\<lambda>n. Inr []) \<rparr>) 2 = Inr []" by simp
  have h1: "GetLastNBatches (env0\<lparr> GetLastNBatches := (\<lambda>n. Inr [stateBatch0]) \<rparr>) 2 = Inr [stateBatch0]" by simp
  have h2: "GetLastNBatches env0 2 = Inr [stateBatch0, prevBatch0]" by (simp add: env0_def)
  have r0: "getLastStateRoot (env0\<lparr> GetLastNBatches := (\<lambda>n. Inr []) \<rparr>) = (ZeroHash, None)"
    using getLastStateRoot_by_length [of "env0\<lparr> GetLastNBatches := (\<lambda>n. Inr []) \<rparr>"] h0 by blast
  have r1: "getLastStateRoot (env0\<lparr> GetLastNBatches := (\<lambda>n. Inr [stateBatch0]) \<rparr>) = (state_Batch.StateRoot stateBatch0, None)"
    using getLastStateRoot_by_length [of "env0\<lparr> GetLastNBatches := (\<lambda>n. Inr [stateBatch0]) \<rparr>" stateBatch0] h1 by blast
  have r2: "getLastStateRoot env0 = (state_Batch.StateRoot prevBatch0, None)"
    using getLastStateRoot_by_length [of env0 _ stateBatch0 prevBatch0] h2 by blast
  show ?thesis using h0 h1 h2 r0 r1 r2
    by (simp add: ZeroHash_def stateBatch0_def prevBatch0_def)
qed

section \<open>Cache of the last two trusted batches\<close>

text \<open>
  C10. For every response whose \<open>UpdateBatch\<close> is nil, \<open>updateCache\<close> leaves both slots
  nil, whatever \<open>UpdateBatchWithProcessBatchResponse\<close> and the executor response are: the
  overwrites from the executor response happen only on a batch that \<open>UpdateBatch\<close> gave.
  For every closed batch the result has slot 0 nil and slot 1 holding what slot 0 held
  before the move: nothing without a response, with \<open>ClearCache\<close> or without
  \<open>UpdateBatch\<close>, and otherwise the update batch, overwritten from the executor response
  with \<open>WIP\<close> false when the response asks for it.
\<close>

theorem updateCache_nil_update_and_closed:
  "(UpdateBatch resp = None \<longrightarrow>
      updateCache status (Some resp) closedBatch = \<lparr> LastTrustedBatches = [None, None] \<rparr>)
   \<and> LastTrustedBatches (updateCache status response True) =
        [None,
         (case response of
            None \<Rightarrow> None
          | Some r \<Rightarrow>
              if ClearCache r then None
              else (case UpdateBatch r of
                      None \<Rightarrow> None
                    | Some b \<Rightarrow>
                        (case ProcessBatchResponse r of
                           None \<Rightarrow> Some b
                         | Some pbr \<Rightarrow>
                             if UpdateBatchWithProcessBatchResponse r
                             then Some (b\<lparr> state_Batch.StateRoot := NewStateRoot pbr,
                                           state_Batch.LocalExitRoot := NewLocalExitRoot pbr,
                                           state_Batch.AccInputHash := NewAccInputHash pbr,
                                           WIP := False \<rparr>)
                             else Some b)))]"
  by (simp add: updateCache_def Let_def split: option.splits)

theorem updateCache_nil_update_and_closed_witness:
  "UpdateBatch \<lparr> ProcessBatchResponse = Some response0, ClearCache = False,
                 UpdateBatch = None, UpdateBatchWithProcessBatchResponse = True \<rparr> = None
   \<and> updateCache \<lparr> LastTrustedBatches = [Some stateBatch0, Some prevBatch0] \<rparr>
         (Some \<lparr> ProcessBatchResponse = Some response0, ClearCache = False,
                  UpdateBatch = None, UpdateBatchWithProcessBatchResponse = True \<rparr>) False
       = \<lparr> LastTrustedBatches = [None, None] \<rparr>
   \<and> LastTrustedBatches
         (updateCache \<lparr> LastTrustedBatches = [Some stateBatch0, Some prevBatch0] \<rparr>
           (Some \<lparr> ProcessBatchResponse = Some response0, ClearCache = False,
                    UpdateBatch = Some (stateBatch0\<lparr> WIP := True \<rparr>),
                    UpdateBatchWithProcessBatchResponse = True \<rparr>) True)
       = [None, Some stateBatch0]"
proof -
  let ?status = "\<lparr> LastTrustedBatches = [Some stateBatch0, Some prevBatch0] \<rparr>"
  let ?r1 = "\<lparr> ProcessBatchResponse = Some response0, ClearCache = False,
               UpdateBatch = None, UpdateBatchWithProcessBatchResponse = True \<rparr>"
  let ?r2 = "\<lparr> ProcessBatchResponse = Some response0, ClearCache = False,
               UpdateBatch = Some (stateBatch0\<lparr> WIP := True \<rparr>),
               UpdateBatchWithProcessBatchResponse = True \<rparr>"
  have h: "UpdateBatch ?r1 = None" by simp
  have a: "updateCache ?status (Some ?r1) False = \<lparr> LastTrustedBatches = [None, None] \<rparr>"
    using updateCache_nil_update_and_closed [of ?r1 ?status False] h by blast
  have "LastTrustedBatches (updateCache ?status (Some ?r2) True)
          = [None, Some (stateBatch0\<lparr> WIP := True \<rparr>
                          \<lparr> state_Batch.StateRoot := NewStateRoot response0,
                            state_Batch.LocalExitRoot := NewLocalExitRoot response0,
                            state_Batch.AccInputHash := NewAccInputHash response0,
                            WIP := False \<rparr>)]"
    using updateCache_nil_update_and_closed [of ?r2 ?status True "Some ?r2"] by simp
  then have b: "LastTrustedBatches (updateCache ?status (Some ?r2) True) = [None, Some stateBatch0]"
    by (simp add: stateBatch0_def response0_def)
  from h a b show ?thesis by blast
qed

section \<open>Resources at their threshold\<close>

text \<open>
  What \<open>isBatchResourcesExhausted\<close> compares (lines 491-531): the bytes and eight of the
  nine zk counters, each with the value \<open>getConstraintThresholdUint64\<close> or
  \<open>getConstraintThresholdUint32\<close> returns for its maximum. It returns true iff one of
  these nine comparisons holds, and then sets the closing reason to
  \<open>BatchAlmostFullClosingReason\<close>; otherwise it leaves the finalizer as it is. The
  poseidon hashes are in no comparison: the result is the same whatever is left of them.
\<close>

lemma isBatchResourcesExhausted_comparisons:
  "fst (isBatchResourcesExhausted f) =
     (Bytes (remainingResources (wipBatch f))
        \<le> getConstraintThresholdUint64 (ResourcePercentageToCloseBatch (cfg f)) (MaxBatchBytesSize (batchConstraints f))
      \<or> UsedSteps (ZKCounters (remainingResources (wipBatch f)))
        \<le> getConstraintThresholdUint32 (ResourcePercentageToCloseBatch (cfg f)) (MaxSteps (batchConstraints f))
      \<or> UsedPoseidonPaddings (ZKCounters (remainingResources (wipBatch f)))
        \<le> getConstraintThresholdUint32 (ResourcePercentageToCloseBatch (cfg f)) (MaxPoseidonPaddings (batchConstraints f))
      \<or> UsedBinaries (ZKCounters (remainingResources (wipBatch f)))
        \<le> getConstraintThresholdUint32 (ResourcePercentageToCloseBatch (cfg f)) (MaxBinaries (batchConstraints f))
      \<or> UsedKeccakHashes (ZKCounters (remainingResources (wipBatch f)))
        \<le> getConstraintThresholdUint32 (ResourcePercentageToCloseBatch (cfg f)) (MaxKeccakHashes (batchConstraints f))
      \<or> UsedArithmetics (ZKCounters (remainingResources (wipBatch f)))
        \<le> getConstraintThresholdUint32 (ResourcePercentageToCloseBatch (cfg f)) (MaxArithmetics (batchConstraints f))
      \<or> UsedMemAligns (ZKCounters (remainingResources (wipBatch f)))
        \<le> getConstraintThresholdUint32 (ResourcePercentageToCloseBatch (cfg f)) (MaxMemAligns (batchConstraints f))
      \<or> GasUsed (ZKCounters (remainingResources (wipBatch f)))
        \<le> getConstraintThresholdUint64 (ResourcePercentageToCloseBatch (cfg f)) (MaxCumulativeGasUsed (batchConstraints f))
      \<or> UsedSha256Hashes_V2 (ZKCounters (remainingResources (wipBatch f)))
        \<le> getConstraintThresholdUint32 (ResourcePercentageToCloseBatch (cfg f)) (MaxSHA256Hashes (batchConstraints f)))"
  by (simp add: isBatchResourcesExhausted_def Let_def)

lemma isBatchResourcesExhausted_closing_reason:
  "snd (snd (snd (isBatchResourcesExhausted f))) =
       (if fst (isBatchResourcesExhausted f)
        then f\<lparr> wipBatch := (wipBatch f)\<lparr> closingReason := BatchAlmostFullClosingReason \<rparr> \<rparr>
        else f)"
  by (simp add: isBatchResourcesExhausted_def Let_def)

lemma isBatchResourcesExhausted_poseidon_hashes_unread:
  "fst (isBatchResourcesExhausted
          (f\<lparr> wipBatch := (wipBatch f)\<lparr> remainingResources :=
               (remainingResources (wipBatch f))\<lparr> ZKCounters :=
                  (ZKCounters (remainingResources (wipBatch f)))\<lparr> UsedPoseidonHashes := x \<rparr> \<rparr> \<rparr> \<rparr>))
     = fst (isBatchResourcesExhausted f)"
  by (simp add: isBatchResourcesExhausted_comparisons)

text \<open>
  An input at which the first comparison holds: 1000 bytes of budget, 99 left, closing at
  10 percent.
\<close>

lemma isBatchResourcesExhausted_bytes:
  "isBatchResourcesExhausted finalizer_bytes =
     (True, ''MaxBatchBytesSize'',
      [Log log_Info ''closing batch %d, because it reached MaxBatchBytesSize limit''],
      finalizer_bytes\<lparr> wipBatch := (wipBatch finalizer_bytes)\<lparr> closingReason := BatchAlmostFullClosingReason \<rparr> \<rparr>)"
proof -
  have t: "getConstraintThresholdUint64 10 1000 = 100"
    by (simp add: getConstraintThresholdUint64_def)
  show ?thesis
    by (simp add: isBatchResourcesExhausted_def Let_def finalizer_bytes_def finalizer0_def
        batch0_def constraints0_def getMaxRemainingResources_def t)
qed

text \<open>
  The thresholds compared are the wrapped ones. With a budget of 50000000 steps and
  closing at 90 percent the 32-bit product wraps and the threshold is 2050327: with
  3000000 steps left, which is below the exact 45000000, the function returns false.
\<close>

lemma isBatchResourcesExhausted_wrapped_threshold:
  "getConstraintThresholdUint32 (ResourcePercentageToCloseBatch (cfg finalizer_steps))
       (MaxSteps (batchConstraints finalizer_steps)) = 2050327
   \<and> unat (MaxSteps (batchConstraints finalizer_steps))
       * unat (ResourcePercentageToCloseBatch (cfg finalizer_steps)) div 100 = 45000000
   \<and> UsedSteps (ZKCounters (remainingResources (wipBatch finalizer_steps))) = 3000000
   \<and> isBatchResourcesExhausted finalizer_steps = (False, [], [], finalizer_steps)"
  by (simp add: isBatchResourcesExhausted_def Let_def finalizer_steps_def finalizer0_def
      batch0_def constraints0_def getMaxRemainingResources_def getConstraintThresholdUint64_def
      getConstraintThresholdUint32_def)

text \<open>
  C3 at an input the code can receive: a batch within its constraints, closing at 10
  percent, with about half of every resource left and 100 of its 252357 poseidon hashes.
  C3 expects the function to return true when a component of the remaining resources,
  the nine zk counters and the bytes, is at or below its threshold, and to set the closing
  reason to \<open>BatchAlmostFullClosingReason\<close>. The poseidon hashes are such a component, with
  a budget \<open>MaxPoseidonHashes\<close> of their own, and 100 is below their threshold 25235, which
  is the same computed exactly or by \<open>getConstraintThresholdUint32\<close>. No branch of the
  function compares them: it returns false, logs nothing and leaves the closing reason
  empty.
\<close>

theorem poseidon_hashes_not_watched:
  "within_constraints constraints0 (remainingResources (wipBatch finalizer_poseidon))
   \<and> UsedPoseidonHashes (ZKCounters (remainingResources (wipBatch finalizer_poseidon))) = 100
   \<and> getConstraintThresholdUint32 (ResourcePercentageToCloseBatch (cfg finalizer_poseidon))
         (MaxPoseidonHashes (batchConstraints finalizer_poseidon)) = 25235
   \<and> unat (MaxPoseidonHashes (batchConstraints finalizer_poseidon))
         * unat (ResourcePercentageToCloseBatch (cfg finalizer_poseidon)) div 100 = 25235
   \<and> isBatchResourcesExhausted finalizer_poseidon = (False, [], [], finalizer_poseidon)
   \<and> closingReason (wipBatch finalizer_poseidon) = EmptyClosingReason"
  by (simp add: isBatchResourcesExhausted_def Let_def within_constraints_def
      finalizer_poseidon_def remaining_poseidon_def finalizer0_def batch0_def constraints0_def
      getConstraintThresholdUint64_def getConstraintThresholdUint32_def)

section \<open>Mode of a trusted batch\<close>

text \<open>
  The renderings compared by \<open>checkIfSyncedWhitoutWIP\<close> tell two values apart when the
  renderings are injective, as those of go-ethereum are; \<open>hex.EncodeToString\<close> is.
\<close>

lemma hexdigit_inj: "a < 16 \<Longrightarrow> b < 16 \<Longrightarrow> hexdigit a = hexdigit b \<Longrightarrow> a = b"
proof -
  assume a: "a < 16" and b: "b < 16" and e: "hexdigit a = hexdigit b"
  have A: "a = 0 \<or> a = 1 \<or> a = 2 \<or> a = 3 \<or> a = 4 \<or> a = 5 \<or> a = 6 \<or> a = 7 \<or> a = 8
      \<or> a = 9 \<or> a = 10 \<or> a = 11 \<or> a = 12 \<or> a = 13 \<or> a = 14 \<or> a = 15"
    using a by arith
  have B: "b = 0 \<or> b = 1 \<or> b = 2 \<or> b = 3 \<or> b = 4 \<or> b = 5 \<or> b = 6 \<or> b = 7 \<or> b = 8
      \<or> b = 9 \<or> b = 10 \<or> b = 11 \<or> b = 12 \<or> b = 13 \<or> b = 14 \<or> b = 15"
    using b by arith
  from A B e show ?thesis
    by (auto simp add: hexdigit_def)
qed

lemma byte_from_digits:
  fixes x y :: "8 word"
  assumes "unat x div 16 = unat y div 16" "unat x mod 16 = unat y mod 16"
  shows "x = y"
proof -
  have "unat x = unat y"
    using assms by (metis div_mult_mod_eq)
  then show ?thesis by (simp add: word_unat_eq_iff)
qed

lemma hex_EncodeToString_inj:
  "hex_EncodeToString xs = hex_EncodeToString ys \<Longrightarrow> xs = ys"
proof (induction xs arbitrary: ys)
  case Nil
  then show ?case by (cases ys) simp_all
next
  case (Cons x xs)
  then obtain y ys' where ys: "ys = y # ys'" by (cases ys) auto
  have lx: "unat x < 256" using unsigned_less [of x] by simp
  have ly: "unat y < 256" using unsigned_less [of y] by simp
  from Cons.prems ys have d: "hexdigit (unat x div 16) = hexdigit (unat y div 16)"
    and m: "hexdigit (unat x mod 16) = hexdigit (unat y mod 16)"
    and r: "hex_EncodeToString xs = hex_EncodeToString ys'" by simp_all
  have "unat x div 16 = unat y div 16"
    using d lx ly by (intro hexdigit_inj) auto
  moreover have "unat x mod 16 = unat y mod 16"
    using m by (intro hexdigit_inj) auto
  ultimately have "x = y" by (rule byte_from_digits)
  with Cons.IH [OF r] ys show ?case by simp
qed

lemma checkIfSynced_equal_rows:
  assumes "inj hashStr" and "inj addrStr"
  shows "fst (checkIfSynced hashStr addrStr sb tb) = equal_rows sb tb"
proof -
  have h: "\<And>x y. hashStr x = hashStr y \<longleftrightarrow> x = y"
    using assms(1) by (auto dest: injD)
  have a: "\<And>x y. addrStr x = addrStr y \<longleftrightarrow> x = y"
    using assms(2) by (auto dest: injD)
  have d: "\<And>x y. hex_EncodeToString x = hex_EncodeToString y \<longleftrightarrow> x = y"
    by (auto dest: hex_EncodeToString_inj)
  show ?thesis
    by (auto simp add: checkIfSynced_def checkIfSyncedWhitoutWIP_def equal_rows_def Let_def h a d
        split: prod.splits if_splits)
qed

lemma modes_distinct:
  "FullProcessMode \<noteq> []" "NothingProcessMode \<noteq> []" "IncrementalProcessMode \<noteq> []"
  "ReprocessProcessMode \<noteq> []" "FullProcessMode \<noteq> NothingProcessMode"
  "IncrementalProcessMode \<noteq> NothingProcessMode" "ReprocessProcessMode \<noteq> NothingProcessMode"
  by (simp_all add: FullProcessMode_def NothingProcessMode_def IncrementalProcessMode_def
      ReprocessProcessMode_def)

lemma inj_hashStr0: "inj hashStr0"
proof (rule injI)
  fix x y :: Hash
  assume "hashStr0 x = hashStr0 y"
  then have "length (hashStr0 x) = length (hashStr0 y)" by simp
  then have "unat x = unat y" by (simp add: hashStr0_def)
  then show "x = y" by (simp add: word_unat_eq_iff)
qed

lemma inj_addrStr0: "inj addrStr0"
proof (rule injI)
  fix x y :: Address
  assume "addrStr0 x = addrStr0 y"
  then have "length (addrStr0 x) = length (addrStr0 y)" by simp
  then have "unat x = unat y" by (simp add: addrStr0_def)
  then show "x = y" by (simp add: word_unat_eq_iff)
qed

text \<open>
  C4, as the code has it. With a trusted batch and a previous state batch that are not nil,
  \<open>getModeForProcessBatch\<close> returns no error and follows the four rows of the table: no
  state batch gives Full with the previous batch's state root; a state batch equal to the
  trusted batch (number, GER, LER, state root, coinbase, L2 data, and
  \<open>wip == !trusted.closed\<close>) gives Nothing with the zero hash; an unequal one with a
  nonzero state root gives Incremental with that state root; an unequal one with a zero
  state root gives Reprocess with the previous batch's state root; and
  \<open>BatchMustBeClosed\<close> is \<open>mode \<noteq> Nothing \<and> trusted.closed\<close>. When the trusted batch or
  the previous state batch is nil, it returns the zero \<open>ProcessData\<close> and an error.
\<close>

theorem getModeForProcessBatch_table:
  assumes "inj hashStr" and "inj addrStr"
  shows "snd (getModeForProcessBatch hashStr addrStr now (Some tb) sbo (Some prev)) = None
   \<and> (Mode (fst (getModeForProcessBatch hashStr addrStr now (Some tb) sbo (Some prev))),
       ProcessData.OldStateRoot (fst (getModeForProcessBatch hashStr addrStr now (Some tb) sbo (Some prev))))
      = (case sbo of
           None \<Rightarrow> (FullProcessMode, state_Batch.StateRoot prev)
         | Some sb \<Rightarrow>
             if equal_rows sb tb then (NothingProcessMode, ZeroHash)
             else if state_Batch.StateRoot sb \<noteq> ZeroHash
               then (IncrementalProcessMode, state_Batch.StateRoot sb)
             else (ReprocessProcessMode, state_Batch.StateRoot prev))
   \<and> BatchMustBeClosed (fst (getModeForProcessBatch hashStr addrStr now (Some tb) sbo (Some prev)))
      = (Mode (fst (getModeForProcessBatch hashStr addrStr now (Some tb) sbo (Some prev))) \<noteq> NothingProcessMode
         \<and> Closed tb)
   \<and> getModeForProcessBatch hashStr addrStr now None sbo prevo
      = (ProcessData_zero, Some (fmt_Errorf ''trustedNodeBatch and statePreviousBatch can't be nil'' []))
   \<and> getModeForProcessBatch hashStr addrStr now tbo sbo None
      = (ProcessData_zero, Some (fmt_Errorf ''trustedNodeBatch and statePreviousBatch can't be nil'' []))"
proof -
  note sync = checkIfSynced_equal_rows [OF assms]
  let ?r = "getModeForProcessBatch hashStr addrStr now (Some tb) sbo (Some prev)"
  have e: "snd ?r = None"
    by (auto simp add: getModeForProcessBatch_def Let_def modes_distinct isTrustedBatchClosed_def
        split: option.splits prod.splits)
  have m: "(Mode (fst ?r), ProcessData.OldStateRoot (fst ?r))
      = (case sbo of
           None \<Rightarrow> (FullProcessMode, state_Batch.StateRoot prev)
         | Some sb \<Rightarrow>
             if equal_rows sb tb then (NothingProcessMode, ZeroHash)
             else if state_Batch.StateRoot sb \<noteq> ZeroHash
               then (IncrementalProcessMode, state_Batch.StateRoot sb)
             else (ReprocessProcessMode, state_Batch.StateRoot prev))"
  proof (cases sbo)
    case None
    then show ?thesis
      by (simp add: getModeForProcessBatch_def Let_def modes_distinct)
  next
    case (Some sb)
    obtain ok str where c: "checkIfSynced hashStr addrStr sb tb = (ok, str)"
      by (cases "checkIfSynced hashStr addrStr sb tb") auto
    with sync [of sb tb] have ok: "ok = equal_rows sb tb" by simp
    show ?thesis
      using Some c ok
      by (simp add: getModeForProcessBatch_def Let_def modes_distinct ZeroHash_def)
  qed
  have c: "BatchMustBeClosed (fst ?r) = (Mode (fst ?r) \<noteq> NothingProcessMode \<and> Closed tb)"
    by (auto simp add: getModeForProcessBatch_def Let_def modes_distinct isTrustedBatchClosed_def
        split: option.splits prod.splits)
  have n1: "getModeForProcessBatch hashStr addrStr now None sbo prevo
      = (ProcessData_zero, Some (fmt_Errorf ''trustedNodeBatch and statePreviousBatch can't be nil'' []))"
    by (simp add: getModeForProcessBatch_def)
  have n2: "getModeForProcessBatch hashStr addrStr now tbo sbo None
      = (ProcessData_zero, Some (fmt_Errorf ''trustedNodeBatch and statePreviousBatch can't be nil'' []))"
    by (simp add: getModeForProcessBatch_def split: option.splits)
  from e m c n1 n2 show ?thesis by blast
qed

theorem getModeForProcessBatch_table_witness:
  "inj hashStr0 \<and> inj addrStr0
   \<and> Mode (fst (getModeForProcessBatch hashStr0 addrStr0 2000 (Some trustedBatch0) None (Some prevBatch0)))
       = ''full''
   \<and> ProcessData.OldStateRoot (fst (getModeForProcessBatch hashStr0 addrStr0 2000 (Some trustedBatch0) None (Some prevBatch0)))
       = 7
   \<and> BatchMustBeClosed (fst (getModeForProcessBatch hashStr0 addrStr0 2000 (Some trustedBatch0) None (Some prevBatch0)))
   \<and> Mode (fst (getModeForProcessBatch hashStr0 addrStr0 2000 (Some trustedBatch0) (Some stateBatch0) (Some prevBatch0)))
       = ''nothing''
   \<and> \<not> BatchMustBeClosed (fst (getModeForProcessBatch hashStr0 addrStr0 2000 (Some trustedBatch0) (Some stateBatch0) (Some prevBatch0)))
   \<and> Mode (fst (getModeForProcessBatch hashStr0 addrStr0 2000 (Some trustedBatch0)
              (Some (stateBatch0\<lparr> WIP := True, state_Batch.StateRoot := 6 \<rparr>)) (Some prevBatch0)))
       = ''incremental''
   \<and> ProcessData.OldStateRoot (fst (getModeForProcessBatch hashStr0 addrStr0 2000 (Some trustedBatch0)
              (Some (stateBatch0\<lparr> WIP := True, state_Batch.StateRoot := 6 \<rparr>)) (Some prevBatch0)))
       = 6
   \<and> Mode (fst (getModeForProcessBatch hashStr0 addrStr0 2000 (Some trustedBatch0)
              (Some (stateBatch0\<lparr> WIP := True, state_Batch.StateRoot := 0 \<rparr>)) (Some prevBatch0)))
       = ''reprocess''
   \<and> ProcessData.OldStateRoot (fst (getModeForProcessBatch hashStr0 addrStr0 2000 (Some trustedBatch0)
              (Some (stateBatch0\<lparr> WIP := True, state_Batch.StateRoot := 0 \<rparr>)) (Some prevBatch0)))
       = 7"
proof -
  note T = getModeForProcessBatch_table [OF inj_hashStr0 inj_addrStr0, of 2000 trustedBatch0 _ prevBatch0]
  have eq0: "equal_rows stateBatch0 trustedBatch0"
    by (simp add: equal_rows_def stateBatch0_def trustedBatch0_def)
  have ne: "\<And>r. \<not> equal_rows (stateBatch0\<lparr> WIP := True, state_Batch.StateRoot := r \<rparr>) trustedBatch0"
    by (simp add: equal_rows_def stateBatch0_def trustedBatch0_def)
  have cl: "Closed trustedBatch0" by (simp add: trustedBatch0_def)
  have p: "state_Batch.StateRoot prevBatch0 = 7" by (simp add: prevBatch0_def)
  let ?full = "getModeForProcessBatch hashStr0 addrStr0 2000 (Some trustedBatch0) None (Some prevBatch0)"
  let ?same = "getModeForProcessBatch hashStr0 addrStr0 2000 (Some trustedBatch0) (Some stateBatch0) (Some prevBatch0)"
  let ?incr = "getModeForProcessBatch hashStr0 addrStr0 2000 (Some trustedBatch0)
              (Some (stateBatch0\<lparr> WIP := True, state_Batch.StateRoot := 6 \<rparr>)) (Some prevBatch0)"
  let ?repr = "getModeForProcessBatch hashStr0 addrStr0 2000 (Some trustedBatch0)
              (Some (stateBatch0\<lparr> WIP := True, state_Batch.StateRoot := 0 \<rparr>)) (Some prevBatch0)"
  have f1: "(Mode (fst ?full), ProcessData.OldStateRoot (fst ?full)) = (FullProcessMode, 7)"
    using T [of None] p by simp
  have f2: "BatchMustBeClosed (fst ?full) = (Mode (fst ?full) \<noteq> NothingProcessMode \<and> Closed trustedBatch0)"
    using T [of None] by blast
  have s1: "(Mode (fst ?same), ProcessData.OldStateRoot (fst ?same)) = (NothingProcessMode, ZeroHash)"
    using T [of "Some stateBatch0"] eq0 by simp
  have s2: "BatchMustBeClosed (fst ?same) = (Mode (fst ?same) \<noteq> NothingProcessMode \<and> Closed trustedBatch0)"
    using T [of "Some stateBatch0"] by blast
  have i1: "(Mode (fst ?incr), ProcessData.OldStateRoot (fst ?incr)) = (IncrementalProcessMode, 6)"
    using T [of "Some (stateBatch0\<lparr> WIP := True, state_Batch.StateRoot := 6 \<rparr>)"] ne [of 6]
    by (simp add: ZeroHash_def)
  have r1: "(Mode (fst ?repr), ProcessData.OldStateRoot (fst ?repr)) = (ReprocessProcessMode, 7)"
    using T [of "Some (stateBatch0\<lparr> WIP := True, state_Batch.StateRoot := 0 \<rparr>)"] ne [of 0] p
    by (simp add: ZeroHash_def)
  from f1 f2 s1 s2 i1 r1 cl inj_hashStr0 inj_addrStr0 show ?thesis
    by (simp add: FullProcessMode_def NothingProcessMode_def IncrementalProcessMode_def
        ReprocessProcessMode_def)
qed

text \<open>
  C4 as stated speaks of every cache state. With slot 1 of the cache empty there is no
  previous batch: the first row of the table does not apply, the guard of line 180
  returns an error and the mode stays empty.
\<close>

theorem getModeForProcessBatch_without_previous:
  "getModeForProcessBatch hashStr0 addrStr0 2000 (Some trustedBatch0) None None
     = (ProcessData_zero, Some (fmt_Errorf ''trustedNodeBatch and statePreviousBatch can't be nil'' []))
   \<and> Mode (fst (getModeForProcessBatch hashStr0 addrStr0 2000 (Some trustedBatch0) None None))
       \<noteq> FullProcessMode"
  by (simp add: getModeForProcessBatch_def ProcessData_zero_def FullProcessMode_def)

section \<open>Sanity reprocessor\<close>

text \<open>
  What \<open>reprocessError\<close> does with a batch depends on its data alone: data that does not
  decode gives one error line and a return; data that decodes gives the detailed log and
  a call of \<open>Halt\<close>, with no event before it.
\<close>

lemma reprocessError_undecodable:
  assumes "DecodeBatchV2 e (state_Batch.BatchL2Data b) = Inl err"
  shows "reprocessError e (Some b) =
           ([Log log_Error ''[reprocessFullBatch] error decoding BatchL2Data for batch %d. Error: %s''],
            Returned ())"
  using assms by (simp add: reprocessError_def)

lemma reprocessError_decodes:
  assumes "DecodeBatchV2 e (state_Batch.BatchL2Data b) = Inr raw"
  shows "snd (reprocessError e (Some b)) = Halted"
    and "\<exists>logs herr. fst (reprocessError e (Some b)) = logs @ [HaltCalled herr]
           \<and> \<not> list_ex is_LogEvent logs \<and> \<not> list_ex is_HaltCalled logs"
proof -
  show "snd (reprocessError e (Some b)) = Halted"
    using assms by (simp add: reprocessError_def Halt_def)
  let ?logs = "[Log log_Info ''[reprocessFullBatch] BatchNumber: %d, InitialStateRoot: %s, ExpectedNewStateRoot: %s'']
                    @ concat (map (\<lambda>rawL2block.
                         map (\<lambda>rawTx. Log log_Info ''[reprocessFullBatch] BatchNumber: %d, block position: % d, tx position %d, tx hash: %s'')
                           (L2BlockRaw.Transactions rawL2block))
                        (Blocks raw))"
  have "fst (reprocessError e (Some b)) = ?logs @ [HaltCalled (fmt_Errorf ''error reprocessing full batch (sanity check). Check previous errors in logs to know which was the cause'' [])]"
    using assms by (simp add: reprocessError_def Halt_def)
  moreover have "\<not> list_ex is_LogEvent ?logs" by (auto simp add: list_ex_iff)
  moreover have "\<not> list_ex is_HaltCalled ?logs" by (auto simp add: list_ex_iff)
  ultimately show "\<exists>logs herr. fst (reprocessError e (Some b)) = logs @ [HaltCalled herr]
           \<and> \<not> list_ex is_LogEvent logs \<and> \<not> list_ex is_HaltCalled logs"
    by blast
qed

lemma reprocessError_cases:
  "snd (reprocessError e (Some b))
     = (if isl (DecodeBatchV2 e (state_Batch.BatchL2Data b)) then Returned () else Halted)"
  by (cases "DecodeBatchV2 e (state_Batch.BatchL2Data b)")
     (simp_all add: reprocessError_def Halt_def)

lemma reprocessFullBatch_invocation_failure:
  assumes "GetBatchByNumber e batchNum = Inr batch"
    and "GetL1InfoTreeDataFromBatchL2Data e (state_Batch.BatchL2Data batch) = Inr tree"
    and "ProcessBatchV2 e (executorBatchRequest e f batch init tree) = Inl err"
  shows "snd (reprocessFullBatch e f batchNum init expected)
          = (if isl (DecodeBatchV2 e (state_Batch.BatchL2Data batch))
             then Returned (None, Some ErrProcessBatch) else Halted)"
  using assms reprocessError_cases [of e batch]
  by (cases "reprocessError e (Some batch)"; cases "snd (reprocessError e (Some batch))")
     (auto simp add: reprocessFullBatch_def Let_def split: if_splits)

lemma reprocessFullBatch_answer:
  assumes "GetBatchByNumber e batchNum = Inr batch"
    and "GetL1InfoTreeDataFromBatchL2Data e (state_Batch.BatchL2Data batch) = Inr tree"
    and "ProcessBatchV2 e (executorBatchRequest e f batch init tree) = Inr result"
  shows "snd (reprocessFullBatch e f batchNum init expected)
          = (if ExecutorError result \<noteq> None
               then (if isl (DecodeBatchV2 e (state_Batch.BatchL2Data batch))
                     then Returned (None, Some ErrExecutorError) else Halted)
             else if IsRomOOCError result
               then (if isl (DecodeBatchV2 e (state_Batch.BatchL2Data batch))
                     then Returned (None, Some ErrProcessBatchOOC) else Halted)
             else if NewStateRoot result \<noteq> expected
               then (if isl (DecodeBatchV2 e (state_Batch.BatchL2Data batch))
                     then Returned (None, Some ErrStateRootNoMatch) else Halted)
             else Returned (Some result, None))"
  using assms reprocessError_cases [of e batch]
  by (cases "reprocessError e (Some batch)"; cases "snd (reprocessError e (Some batch))")
     (auto simp add: reprocessFullBatch_def Let_def split: if_splits)

lemma reprocessFullBatch_failure_trace:
  assumes "GetBatchByNumber e n = Inr batch"
    and "GetL1InfoTreeDataFromBatchL2Data e (state_Batch.BatchL2Data batch) = Inr tree"
    and "sanity_check_fails (ProcessBatchV2 e (executorBatchRequest e f batch init tree)) expected"
  shows "list_ex is_log_Error (fst (reprocessFullBatch e f n init expected))"
    and "list_ex is_HaltCalled (fst (reprocessFullBatch e f n init expected))
           = (\<not> isl (DecodeBatchV2 e (state_Batch.BatchL2Data batch)))"
    and "(snd (reprocessFullBatch e f n init expected) = Halted)
           = (\<not> isl (DecodeBatchV2 e (state_Batch.BatchL2Data batch)))"
proof -
  show "list_ex is_log_Error (fst (reprocessFullBatch e f n init expected))"
    using assms
    by (cases "reprocessError e (Some batch)"; cases "snd (reprocessError e (Some batch))")
       (auto simp add: reprocessFullBatch_def sanity_check_fails_def Let_def
          split: sum.splits if_splits)
next
  show "list_ex is_HaltCalled (fst (reprocessFullBatch e f n init expected))
           = (\<not> isl (DecodeBatchV2 e (state_Batch.BatchL2Data batch)))"
  proof (cases "DecodeBatchV2 e (state_Batch.BatchL2Data batch)")
    case (Inl err)
    from reprocessError_undecodable [OF Inl] assms Inl show ?thesis
      by (auto simp add: reprocessFullBatch_def sanity_check_fails_def Let_def
          split: sum.splits if_splits option.splits)
  next
    case (Inr raw)
    from reprocessError_decodes [OF Inr] obtain logs herr where
      s: "snd (reprocessError e (Some batch)) = Halted" and
      t: "fst (reprocessError e (Some batch)) = logs @ [HaltCalled herr]" by blast
    then have r: "reprocessError e (Some batch) = (logs @ [HaltCalled herr], Halted)"
      by (cases "reprocessError e (Some batch)") simp
    from r assms Inr show ?thesis
      by (auto simp add: reprocessFullBatch_def sanity_check_fails_def Let_def
          split: sum.splits if_splits)
  qed
next
  show "(snd (reprocessFullBatch e f n init expected) = Halted)
           = (\<not> isl (DecodeBatchV2 e (state_Batch.BatchL2Data batch)))"
  proof (cases "ProcessBatchV2 e (executorBatchRequest e f batch init tree)")
    case (Inl err)
    with reprocessFullBatch_invocation_failure [OF assms(1,2), of f init err expected]
    show ?thesis by auto
  next
    case (Inr result)
    with reprocessFullBatch_answer [OF assms(1,2), of f init result expected] assms(3)
    show ?thesis by (auto simp add: sanity_check_fails_def)
  qed
qed

lemma waitSynced_now: "polls n \<Longrightarrow> waitSynced polls n = Some n"
  by (subst waitSynced.simps) simp

lemmas example_defs =
  env0_def env_invocation_def env_executor_error_def env_ooc_def env_mismatch_def undecodable_def
  finalizer0_def finalizer_async_def batch0_def stateBatch0_def prevBatch0_def response0_def
  dbTx0_def constraints0_def l2BlockUsedResources0_def

text \<open>
  C6, as the code has it. \<open>reprocessFullBatch\<close> tells four failure classes apart, in this
  order: the executor cannot be called, the executor reports an error, the ROM runs out
  of counters, the new state root is not the expected one. In each it calls
  \<open>reprocessError\<close> on the batch before it returns. When the batch data does not decode,
  the call returns the error kind of the class: \<open>ErrProcessBatch\<close>, \<open>ErrExecutorError\<close>,
  \<open>ErrProcessBatchOOC\<close>, \<open>ErrStateRootNoMatch\<close>, four different values. When the data
  decodes, \<open>reprocessError\<close> calls \<open>Halt\<close> and nothing is returned. With no failure it
  returns the executor response and no error.
\<close>

theorem reprocessFullBatch_error_kinds:
  assumes "GetBatchByNumber e batchNum = Inr batch"
    and "GetL1InfoTreeDataFromBatchL2Data e (state_Batch.BatchL2Data batch) = Inr tree"
  shows
    "(ProcessBatchV2 e (executorBatchRequest e f batch init tree) = Inl err \<longrightarrow>
        snd (reprocessFullBatch e f batchNum init expected)
          = (if isl (DecodeBatchV2 e (state_Batch.BatchL2Data batch))
             then Returned (None, Some ErrProcessBatch) else Halted))
     \<and> (ProcessBatchV2 e (executorBatchRequest e f batch init tree) = Inr result \<longrightarrow>
        snd (reprocessFullBatch e f batchNum init expected)
          = (if ExecutorError result \<noteq> None
               then (if isl (DecodeBatchV2 e (state_Batch.BatchL2Data batch))
                     then Returned (None, Some ErrExecutorError) else Halted)
             else if IsRomOOCError result
               then (if isl (DecodeBatchV2 e (state_Batch.BatchL2Data batch))
                     then Returned (None, Some ErrProcessBatchOOC) else Halted)
             else if NewStateRoot result \<noteq> expected
               then (if isl (DecodeBatchV2 e (state_Batch.BatchL2Data batch))
                     then Returned (None, Some ErrStateRootNoMatch) else Halted)
             else Returned (Some result, None)))
     \<and> distinct [ErrProcessBatch, ErrExecutorError, ErrProcessBatchOOC, ErrStateRootNoMatch]"
  using reprocessFullBatch_invocation_failure [OF assms, of f init err expected]
    reprocessFullBatch_answer [OF assms, of f init result expected]
  by simp

theorem reprocessFullBatch_error_kinds_witness:
  "snd (reprocessFullBatch (undecodable env_invocation) finalizer0 10 7 8)
     = Returned (None, Some ErrProcessBatch)
   \<and> snd (reprocessFullBatch (undecodable env_executor_error) finalizer0 10 7 8)
     = Returned (None, Some ErrExecutorError)
   \<and> snd (reprocessFullBatch (undecodable env_ooc) finalizer0 10 7 8)
     = Returned (None, Some ErrProcessBatchOOC)
   \<and> snd (reprocessFullBatch (undecodable env_mismatch) finalizer0 10 7 8)
     = Returned (None, Some ErrStateRootNoMatch)
   \<and> snd (reprocessFullBatch env0 finalizer0 10 7 8) = Returned (Some response0, None)
   \<and> snd (reprocessFullBatch env_invocation finalizer0 10 7 8) = Halted"
proof -
  have g: "\<And>e. e \<in> {env0, env_invocation, env_executor_error, env_ooc, env_mismatch,
             undecodable env_invocation, undecodable env_executor_error, undecodable env_ooc,
             undecodable env_mismatch} \<Longrightarrow>
           GetBatchByNumber e 10 = Inr stateBatch0
           \<and> GetL1InfoTreeDataFromBatchL2Data e (state_Batch.BatchL2Data stateBatch0) = Inr []"
    by (auto simp add: env0_def env_invocation_def env_executor_error_def env_ooc_def
        env_mismatch_def undecodable_def)
  have u: "\<And>e. isl (DecodeBatchV2 (undecodable e) (state_Batch.BatchL2Data stateBatch0))"
    by (simp add: undecodable_def)
  have d: "\<not> isl (DecodeBatchV2 env_invocation (state_Batch.BatchL2Data stateBatch0))"
    by (simp add: env_invocation_def env0_def)
  have p1: "ProcessBatchV2 (undecodable env_invocation)
              (executorBatchRequest (undecodable env_invocation) finalizer0 stateBatch0 7 [])
            = Inl (errors_New ''executor unavailable'')"
    by (simp add: undecodable_def env_invocation_def)
  have p1': "ProcessBatchV2 env_invocation
              (executorBatchRequest env_invocation finalizer0 stateBatch0 7 [])
            = Inl (errors_New ''executor unavailable'')"
    by (simp add: env_invocation_def)
  have p2: "ProcessBatchV2 (undecodable env_executor_error)
              (executorBatchRequest (undecodable env_executor_error) finalizer0 stateBatch0 7 [])
            = Inr (response0\<lparr> ExecutorError := Some (errors_New ''executor error'') \<rparr>)"
    by (simp add: undecodable_def env_executor_error_def)
  have p3: "ProcessBatchV2 (undecodable env_ooc)
              (executorBatchRequest (undecodable env_ooc) finalizer0 stateBatch0 7 [])
            = Inr (response0\<lparr> IsRomOOCError := True \<rparr>)"
    by (simp add: undecodable_def env_ooc_def)
  have p4: "ProcessBatchV2 (undecodable env_mismatch)
              (executorBatchRequest (undecodable env_mismatch) finalizer0 stateBatch0 7 [])
            = Inr (response0\<lparr> NewStateRoot := 57005 \<rparr>)"
    by (simp add: undecodable_def env_mismatch_def)
  have p5: "ProcessBatchV2 env0 (executorBatchRequest env0 finalizer0 stateBatch0 7 [])
            = Inr response0"
    by (simp add: env0_def)
  have r1: "snd (reprocessFullBatch (undecodable env_invocation) finalizer0 10 7 8)
     = Returned (None, Some ErrProcessBatch)"
    using reprocessFullBatch_error_kinds [of "undecodable env_invocation" 10 stateBatch0 "[]"
        finalizer0 7 "errors_New ''executor unavailable''" 8]
      g [of "undecodable env_invocation"] u [of env_invocation] p1
    by simp
  have r2: "snd (reprocessFullBatch (undecodable env_executor_error) finalizer0 10 7 8)
     = Returned (None, Some ErrExecutorError)"
    using reprocessFullBatch_error_kinds [of "undecodable env_executor_error" 10 stateBatch0 "[]"
        finalizer0 7 _ 8 "response0\<lparr> ExecutorError := Some (errors_New ''executor error'') \<rparr>"]
      g [of "undecodable env_executor_error"] u [of env_executor_error] p2
    by simp
  have r3: "snd (reprocessFullBatch (undecodable env_ooc) finalizer0 10 7 8)
     = Returned (None, Some ErrProcessBatchOOC)"
    using reprocessFullBatch_error_kinds [of "undecodable env_ooc" 10 stateBatch0 "[]"
        finalizer0 7 _ 8 "response0\<lparr> IsRomOOCError := True \<rparr>"]
      g [of "undecodable env_ooc"] u [of env_ooc] p3
    by (simp add: response0_def)
  have r4: "snd (reprocessFullBatch (undecodable env_mismatch) finalizer0 10 7 8)
     = Returned (None, Some ErrStateRootNoMatch)"
    using reprocessFullBatch_error_kinds [of "undecodable env_mismatch" 10 stateBatch0 "[]"
        finalizer0 7 _ 8 "response0\<lparr> NewStateRoot := 57005 \<rparr>"]
      g [of "undecodable env_mismatch"] u [of env_mismatch] p4
    by (simp add: response0_def)
  have r5: "snd (reprocessFullBatch env0 finalizer0 10 7 8) = Returned (Some response0, None)"
    using reprocessFullBatch_error_kinds [of env0 10 stateBatch0 "[]" finalizer0 7 _ 8 response0]
      g [of env0] p5
    by (simp add: response0_def)
  have r6: "snd (reprocessFullBatch env_invocation finalizer0 10 7 8) = Halted"
    using reprocessFullBatch_error_kinds [of env_invocation 10 stateBatch0 "[]"
        finalizer0 7 "errors_New ''executor unavailable''" 8]
      g [of env_invocation] d p1'
    by simp
  from r1 r2 r3 r4 r5 r6 show ?thesis by blast
qed

text \<open>
  C6 as stated has every failure return its error kind. A closed batch whose data
  decodes and whose replay gives another state root ends in \<open>Halt\<close> at line 385, before
  line 464 can return \<open>ErrStateRootNoMatch\<close>.
\<close>

theorem reprocessFullBatch_mismatch_halts:
  "reprocessFullBatch env_mismatch finalizer0 10 7 8 =
     ([Log log_Debug ''[reprocessFullBatch] reprocessing batch: %d, InitialStateRoot: %s, ExpectedNewStateRoot: %s'',
       Log log_Error ''[reprocessFullBatch] new state root mismatch for batch %d, expected: %s, got: %s'',
       Log log_Info ''[reprocessFullBatch] BatchNumber: %d, InitialStateRoot: %s, ExpectedNewStateRoot: %s'',
       Log log_Info ''[reprocessFullBatch] BatchNumber: %d, block position: % d, tx position %d, tx hash: %s'',
       Log log_Info ''[reprocessFullBatch] BatchNumber: %d, block position: % d, tx position %d, tx hash: %s'',
       HaltCalled (fmt_Errorf ''error reprocessing full batch (sanity check). Check previous errors in logs to know which was the cause'' [])],
      Halted)
   \<and> snd (reprocessFullBatch env_mismatch finalizer0 10 7 8) \<noteq> Returned (None, Some ErrStateRootNoMatch)"
  by (simp add: reprocessFullBatch_def reprocessError_def Halt_def executorBatchRequest_def
      Let_def example_defs)

text \<open>
  C5 at an input the code can receive: the executor answers with \<open>IsRomOOCError\<close> set and
  no executor error, and the batch data decodes. C5 expects one event with source Node,
  component Sequencer, level Critical and id ReprocessFullBatchOOC, then the return of
  \<open>ErrProcessBatchOOC\<close>. The code calls \<open>reprocessError\<close> at line 437, before it builds
  the event at line 439: the call ends in \<open>Halt\<close>, no event is stored and nothing is
  returned.
\<close>

theorem reprocessFullBatch_ooc_halts_before_event:
  "reprocessFullBatch env_ooc finalizer0 10 7 8 =
     ([Log log_Debug ''[reprocessFullBatch] reprocessing batch: %d, InitialStateRoot: %s, ExpectedNewStateRoot: %s'',
       Log log_Error ''[reprocessFullBatch] failed to process batch %d because OutOfCounters'',
       Log log_Info ''[reprocessFullBatch] BatchNumber: %d, InitialStateRoot: %s, ExpectedNewStateRoot: %s'',
       Log log_Info ''[reprocessFullBatch] BatchNumber: %d, block position: % d, tx position %d, tx hash: %s'',
       Log log_Info ''[reprocessFullBatch] BatchNumber: %d, block position: % d, tx position %d, tx hash: %s'',
       HaltCalled (fmt_Errorf ''error reprocessing full batch (sanity check). Check previous errors in logs to know which was the cause'' [])],
      Halted)
   \<and> \<not> list_ex is_LogEvent (fst (reprocessFullBatch env_ooc finalizer0 10 7 8))"
  by (simp add: reprocessFullBatch_def reprocessError_def Halt_def executorBatchRequest_def
      Let_def example_defs)

text \<open>
  C2, as the code has it. When \<open>SequentialReprocessFullBatch\<close> is false the sanity check
  runs in a goroutine and what it returns is dropped: closing and opening go on the same
  way whatever the check finds. Inside the goroutine each of the four failures is logged
  as an error, and then \<open>reprocessError\<close> calls \<open>Halt\<close> exactly when the batch data
  decodes; only with data that does not decode is the failure logged and nothing more.
\<close>

theorem async_failure_logged_then_Halt:
  assumes "\<not> SequentialReprocessFullBatch (cfg f)"
  shows "reprocessThenClose e f =
           (case closeThenOpen e f of
              None \<Rightarrow> None
            | Some (acts, r, f') \<Rightarrow>
                Some (Go (fst (reprocessFullBatch e f (batchNumber (wipBatch f))
                                 (initialStateRoot (wipBatch f)) (finalStateRoot (wipBatch f))))
                        # acts, r, f'))
     \<and> (GetBatchByNumber e n = Inr batch
          \<and> GetL1InfoTreeDataFromBatchL2Data e (state_Batch.BatchL2Data batch) = Inr tree
          \<and> sanity_check_fails (ProcessBatchV2 e (executorBatchRequest e f batch init tree)) expected
        \<longrightarrow> list_ex is_log_Error (fst (reprocessFullBatch e f n init expected))
          \<and> list_ex is_HaltCalled (fst (reprocessFullBatch e f n init expected))
              = (\<not> isl (DecodeBatchV2 e (state_Batch.BatchL2Data batch)))
          \<and> (snd (reprocessFullBatch e f n init expected) = Halted)
              = (\<not> isl (DecodeBatchV2 e (state_Batch.BatchL2Data batch))))"
proof -
  have a: "reprocessThenClose e f =
           (case closeThenOpen e f of
              None \<Rightarrow> None
            | Some (acts, r, f') \<Rightarrow>
                Some (Go (fst (reprocessFullBatch e f (batchNumber (wipBatch f))
                                 (initialStateRoot (wipBatch f)) (finalStateRoot (wipBatch f))))
                        # acts, r, f'))"
    using assms by (simp add: reprocessThenClose_def Let_def)
  show ?thesis
    using a reprocessFullBatch_failure_trace [of e n batch tree f init expected]
    by blast
qed

theorem async_failure_logged_then_Halt_witness:
  "\<not> SequentialReprocessFullBatch (cfg finalizer_async)
   \<and> sanity_check_fails
        (ProcessBatchV2 env_mismatch (executorBatchRequest env_mismatch finalizer_async stateBatch0 7 [])) 8
   \<and> list_ex is_log_Error (fst (reprocessFullBatch env_mismatch finalizer_async 10 7 8))
   \<and> list_ex is_HaltCalled (fst (reprocessFullBatch env_mismatch finalizer_async 10 7 8))
   \<and> snd (reprocessFullBatch env_mismatch finalizer_async 10 7 8) = Halted
   \<and> list_ex is_log_Error (fst (reprocessFullBatch (undecodable env_mismatch) finalizer_async 10 7 8))
   \<and> \<not> list_ex is_HaltCalled (fst (reprocessFullBatch (undecodable env_mismatch) finalizer_async 10 7 8))
   \<and> snd (reprocessFullBatch (undecodable env_mismatch) finalizer_async 10 7 8) \<noteq> Halted"
proof -
  have a: "\<not> SequentialReprocessFullBatch (cfg finalizer_async)"
    by (simp add: finalizer_async_def)
  have g1: "GetBatchByNumber env_mismatch 10 = Inr stateBatch0"
    "GetL1InfoTreeDataFromBatchL2Data env_mismatch (state_Batch.BatchL2Data stateBatch0) = Inr []"
    by (simp_all add: env_mismatch_def env0_def)
  have g2: "GetBatchByNumber (undecodable env_mismatch) 10 = Inr stateBatch0"
    "GetL1InfoTreeDataFromBatchL2Data (undecodable env_mismatch) (state_Batch.BatchL2Data stateBatch0) = Inr []"
    by (simp_all add: undecodable_def env_mismatch_def env0_def)
  have s1: "sanity_check_fails
        (ProcessBatchV2 env_mismatch (executorBatchRequest env_mismatch finalizer_async stateBatch0 7 [])) 8"
    by (simp add: sanity_check_fails_def env_mismatch_def response0_def)
  have s2: "sanity_check_fails
        (ProcessBatchV2 (undecodable env_mismatch)
           (executorBatchRequest (undecodable env_mismatch) finalizer_async stateBatch0 7 [])) 8"
    by (simp add: sanity_check_fails_def undecodable_def env_mismatch_def response0_def)
  have d1: "\<not> isl (DecodeBatchV2 env_mismatch (state_Batch.BatchL2Data stateBatch0))"
    by (simp add: env_mismatch_def env0_def)
  have d2: "isl (DecodeBatchV2 (undecodable env_mismatch) (state_Batch.BatchL2Data stateBatch0))"
    by (simp add: undecodable_def)
  have r1: "list_ex is_log_Error (fst (reprocessFullBatch env_mismatch finalizer_async 10 7 8))
      \<and> list_ex is_HaltCalled (fst (reprocessFullBatch env_mismatch finalizer_async 10 7 8))
      \<and> snd (reprocessFullBatch env_mismatch finalizer_async 10 7 8) = Halted"
    using async_failure_logged_then_Halt [OF a, of env_mismatch 10 stateBatch0 "[]" 7 8] g1 s1 d1
    by blast
  have r2: "list_ex is_log_Error (fst (reprocessFullBatch (undecodable env_mismatch) finalizer_async 10 7 8))
      \<and> \<not> list_ex is_HaltCalled (fst (reprocessFullBatch (undecodable env_mismatch) finalizer_async 10 7 8))
      \<and> snd (reprocessFullBatch (undecodable env_mismatch) finalizer_async 10 7 8) \<noteq> Halted"
    using async_failure_logged_then_Halt [OF a, of "undecodable env_mismatch" 10 stateBatch0 "[]" 7 8]
      g2 s2 d2
    by blast
  from a s1 r1 r2 show ?thesis by blast
qed

text \<open>
  C2 as stated has no call of \<open>Halt\<close> on the asynchronous path. With the flag false and a
  replay that gives another state root, the goroutine of \<open>closeAndOpenNewWIPBatch\<close> ends
  in \<open>HaltCalled\<close>.
\<close>

theorem async_failure_calls_Halt:
  "\<not> SequentialReprocessFullBatch (cfg finalizer_async)
   \<and> reprocessFullBatch env_mismatch finalizer_async 10 7 8 =
     ([Log log_Debug ''[reprocessFullBatch] reprocessing batch: %d, InitialStateRoot: %s, ExpectedNewStateRoot: %s'',
       Log log_Error ''[reprocessFullBatch] new state root mismatch for batch %d, expected: %s, got: %s'',
       Log log_Info ''[reprocessFullBatch] BatchNumber: %d, InitialStateRoot: %s, ExpectedNewStateRoot: %s'',
       Log log_Info ''[reprocessFullBatch] BatchNumber: %d, block position: % d, tx position %d, tx hash: %s'',
       Log log_Info ''[reprocessFullBatch] BatchNumber: %d, block position: % d, tx position %d, tx hash: %s'',
       HaltCalled (fmt_Errorf ''error reprocessing full batch (sanity check). Check previous errors in logs to know which was the cause'' [])],
      Halted)
   \<and> closeAndOpenNewWIPBatch env_mismatch finalizer_async =
       Some ([Log log_Debug ''waiting for pending L2 blocks to be processed took: %s'',
              Log log_Debug ''waiting for pending L2 blocks to be stored took: %s'',
              Go (fst (reprocessFullBatch env_mismatch finalizer_async 10 7 8)),
              Log log_Info ''batch %d closed''],
             Returned
              (Some \<lparr> batchNumber = 11, coinbase = 1, timestamp = 2000, initialStateRoot = 8,
                      imStateRoot = 8, finalStateRoot = 8, localExitRoot = 3, countOfTxs = 0,
                      remainingResources = getMaxRemainingResources constraints0,
                      closingReason = EmptyClosingReason \<rparr>,
               None),
             finalizer_async\<lparr> wipBatch := batch0\<lparr> remainingResources :=
               \<lparr> ZKCounters = \<lparr> GasUsed = 30000000, UsedKeccakHashes = 2145,
                   UsedPoseidonHashes = 252101, UsedPoseidonPaddings = 135191,
                   UsedMemAligns = 236585, UsedArithmetics = 236584, UsedBinaries = 473151,
                   UsedSteps = 7570017, UsedSha256Hashes_V2 = 1596 \<rparr>,
                 Bytes = 119991 \<rparr> \<rparr> \<rparr>)"
proof -
  have a: "\<not> SequentialReprocessFullBatch (cfg finalizer_async)"
    by (simp add: finalizer_async_def)
  have b: "reprocessFullBatch env_mismatch finalizer_async 10 7 8 =
     ([Log log_Debug ''[reprocessFullBatch] reprocessing batch: %d, InitialStateRoot: %s, ExpectedNewStateRoot: %s'',
       Log log_Error ''[reprocessFullBatch] new state root mismatch for batch %d, expected: %s, got: %s'',
       Log log_Info ''[reprocessFullBatch] BatchNumber: %d, InitialStateRoot: %s, ExpectedNewStateRoot: %s'',
       Log log_Info ''[reprocessFullBatch] BatchNumber: %d, block position: % d, tx position %d, tx hash: %s'',
       Log log_Info ''[reprocessFullBatch] BatchNumber: %d, block position: % d, tx position %d, tx hash: %s'',
       HaltCalled (fmt_Errorf ''error reprocessing full batch (sanity check). Check previous errors in logs to know which was the cause'' [])],
      Halted)"
    by (simp add: reprocessFullBatch_def reprocessError_def Halt_def executorBatchRequest_def
        Let_def example_defs)
  have w: "waitSynced (isSynced env_mismatch) 0 = Some 0"
    by (rule waitSynced_now) (simp add: example_defs)
  have o: "openAfterClose env_mismatch finalizer_async =
       Some ([],
             Returned
              (Some \<lparr> batchNumber = 11, coinbase = 1, timestamp = 2000, initialStateRoot = 8,
                      imStateRoot = 8, finalStateRoot = 8, localExitRoot = 3, countOfTxs = 0,
                      remainingResources = getMaxRemainingResources constraints0,
                      closingReason = EmptyClosingReason \<rparr>,
               None),
             finalizer_async\<lparr> wipBatch := batch0\<lparr> remainingResources :=
               \<lparr> ZKCounters = \<lparr> GasUsed = 30000000, UsedKeccakHashes = 2145,
                   UsedPoseidonHashes = 252101, UsedPoseidonPaddings = 135191,
                   UsedMemAligns = 236585, UsedArithmetics = 236584, UsedBinaries = 473151,
                   UsedSteps = 7570017, UsedSha256Hashes_V2 = 1596 \<rparr>,
                 Bytes = 119991 \<rparr> \<rparr> \<rparr>)"
    using w
    by (simp add: openAfterClose_def openNewWIPBatch_def Sub_def Let_def
        getMaxRemainingResources_def example_defs)
  have c: "closeThenOpen env_mismatch finalizer_async =
       Some ([Log log_Info ''batch %d closed''],
             Returned
              (Some \<lparr> batchNumber = 11, coinbase = 1, timestamp = 2000, initialStateRoot = 8,
                      imStateRoot = 8, finalStateRoot = 8, localExitRoot = 3, countOfTxs = 0,
                      remainingResources = getMaxRemainingResources constraints0,
                      closingReason = EmptyClosingReason \<rparr>,
               None),
             finalizer_async\<lparr> wipBatch := batch0\<lparr> remainingResources :=
               \<lparr> ZKCounters = \<lparr> GasUsed = 30000000, UsedKeccakHashes = 2145,
                   UsedPoseidonHashes = 252101, UsedPoseidonPaddings = 135191,
                   UsedMemAligns = 236585, UsedArithmetics = 236584, UsedBinaries = 473151,
                   UsedSteps = 7570017, UsedSha256Hashes_V2 = 1596 \<rparr>,
                 Bytes = 119991 \<rparr> \<rparr> \<rparr>)"
    unfolding closeThenOpen_def o
    by (simp add: closeWIPBatch_def Let_def example_defs)
  have f: "batchNumber (wipBatch finalizer_async) = 10" "initialStateRoot (wipBatch finalizer_async) = 7"
    "finalStateRoot (wipBatch finalizer_async) = 8" "\<not> SequentialReprocessFullBatch (cfg finalizer_async)"
    "l2block_isEmpty (wipL2Block finalizer_async)"
    by (simp_all add: example_defs)
  have r: "reprocessThenClose env_mismatch finalizer_async =
       Some ([Go (fst (reprocessFullBatch env_mismatch finalizer_async 10 7 8)),
              Log log_Info ''batch %d closed''],
             Returned
              (Some \<lparr> batchNumber = 11, coinbase = 1, timestamp = 2000, initialStateRoot = 8,
                      imStateRoot = 8, finalStateRoot = 8, localExitRoot = 3, countOfTxs = 0,
                      remainingResources = getMaxRemainingResources constraints0,
                      closingReason = EmptyClosingReason \<rparr>,
               None),
             finalizer_async\<lparr> wipBatch := batch0\<lparr> remainingResources :=
               \<lparr> ZKCounters = \<lparr> GasUsed = 30000000, UsedKeccakHashes = 2145,
                   UsedPoseidonHashes = 252101, UsedPoseidonPaddings = 135191,
                   UsedMemAligns = 236585, UsedArithmetics = 236584, UsedBinaries = 473151,
                   UsedSteps = 7570017, UsedSha256Hashes_V2 = 1596 \<rparr>,
                 Bytes = 119991 \<rparr> \<rparr> \<rparr>)"
    unfolding reprocessThenClose_def c
    by (simp add: f Let_def)
  have d: "closeAndOpenNewWIPBatch env_mismatch finalizer_async =
       Some ([Log log_Debug ''waiting for pending L2 blocks to be processed took: %s'',
              Log log_Debug ''waiting for pending L2 blocks to be stored took: %s'',
              Go (fst (reprocessFullBatch env_mismatch finalizer_async 10 7 8)),
              Log log_Info ''batch %d closed''],
             Returned
              (Some \<lparr> batchNumber = 11, coinbase = 1, timestamp = 2000, initialStateRoot = 8,
                      imStateRoot = 8, finalStateRoot = 8, localExitRoot = 3, countOfTxs = 0,
                      remainingResources = getMaxRemainingResources constraints0,
                      closingReason = EmptyClosingReason \<rparr>,
               None),
             finalizer_async\<lparr> wipBatch := batch0\<lparr> remainingResources :=
               \<lparr> ZKCounters = \<lparr> GasUsed = 30000000, UsedKeccakHashes = 2145,
                   UsedPoseidonHashes = 252101, UsedPoseidonPaddings = 135191,
                   UsedMemAligns = 236585, UsedArithmetics = 236584, UsedBinaries = 473151,
                   UsedSteps = 7570017, UsedSha256Hashes_V2 = 1596 \<rparr>,
                 Bytes = 119991 \<rparr> \<rparr> \<rparr>)"
    unfolding closeAndOpenNewWIPBatch_def
    by (simp add: f r Let_def)
  from a b d show ?thesis by blast
qed

section \<open>Budget of the newly opened batch\<close>

text \<open>
  The batch \<open>openNewWIPBatch\<close> returns has the full budget of the constraints, and
  \<open>closeAndOpenNewWIPBatch\<close> returns it as it is: the subtraction of line 258 is applied to
  \<open>f.wipBatch\<close>, which at that point still is the batch that was closed.
\<close>

lemma openNewWIPBatch_full_budget:
  assumes "openNewWIPBatch e f n ger root ler = Some (acts, Some b, err)"
  shows "remainingResources b = getMaxRemainingResources (batchConstraints f)"
  using assms
  by (auto simp add: openNewWIPBatch_def Let_def split: option.splits)

lemma openAfterClose_budget:
  assumes "openAfterClose e f = Some (acts, Returned (Some b, None), f')"
    and "nextForcedBatches f = []"
  shows "remainingResources b = getMaxRemainingResources (batchConstraints f)"
    and "Sub (remainingResources (wipBatch f)) (l2BlockUsedResources e)
           = Inr (remainingResources (wipBatch f'))"
    and "f' = f\<lparr> wipBatch := (wipBatch f)\<lparr> remainingResources := remainingResources (wipBatch f') \<rparr> \<rparr>"
  using assms
  by (auto simp add: openAfterClose_def Let_def
      split: option.splits prod.splits sum.splits
      dest: openNewWIPBatch_full_budget)

text \<open>
  C1 at an input the code can receive: batch 10 is closed with its budget untouched, no
  forced batch is pending and every collaborator succeeds. C1 expects the block overhead
  \<open>l2BlockUsedResources\<close> to be taken from the budget of the batch the function returns.
  The returned batch 11 has the full budget \<open>getMaxRemainingResources\<close>; the overhead is
  taken from batch 10, the batch that was closed, which the finalizer still holds. When
  \<open>finalizeBatch\<close> then stores the returned batch in \<open>f.wipBatch\<close>, the work-in-progress
  batch is batch 11 with the full budget: the overhead is charged to no open batch.
\<close>

theorem closeAndOpenNewWIPBatch_charges_closed_batch:
  "closeAndOpenNewWIPBatch env0 finalizer0 =
     Some ([Log log_Debug ''waiting for pending L2 blocks to be processed took: %s'',
            Log log_Debug ''waiting for pending L2 blocks to be stored took: %s'',
            Log log_Debug ''[reprocessFullBatch] reprocessing batch: %d, InitialStateRoot: %s, ExpectedNewStateRoot: %s'',
            Log log_Info ''[reprocessFullBatch]: reprocess successfully done for batch %d'',
            Log log_Info ''batch %d closed''],
           Returned
            (Some \<lparr> batchNumber = 11, coinbase = 1, timestamp = 2000, initialStateRoot = 8,
                    imStateRoot = 8, finalStateRoot = 8, localExitRoot = 3, countOfTxs = 0,
                    remainingResources = getMaxRemainingResources constraints0,
                    closingReason = EmptyClosingReason \<rparr>,
             None),
           finalizer0\<lparr> wipBatch := batch0\<lparr> remainingResources :=
             \<lparr> ZKCounters = \<lparr> GasUsed = 30000000, UsedKeccakHashes = 2145,
                 UsedPoseidonHashes = 252101, UsedPoseidonPaddings = 135191,
                 UsedMemAligns = 236585, UsedArithmetics = 236584, UsedBinaries = 473151,
                 UsedSteps = 7570017, UsedSha256Hashes_V2 = 1596 \<rparr>,
               Bytes = 119991 \<rparr> \<rparr> \<rparr>)
   \<and> Sub (getMaxRemainingResources constraints0) (l2BlockUsedResources env0) =
       Inr \<lparr> ZKCounters = \<lparr> GasUsed = 30000000, UsedKeccakHashes = 2145,
                 UsedPoseidonHashes = 252101, UsedPoseidonPaddings = 135191,
                 UsedMemAligns = 236585, UsedArithmetics = 236584, UsedBinaries = 473151,
                 UsedSteps = 7570017, UsedSha256Hashes_V2 = 1596 \<rparr>,
               Bytes = 119991 \<rparr>
   \<and> batchNumber batch0 = 10
   \<and> map_option (\<lambda>(acts, r, f'). (r, batchNumber (wipBatch f'), remainingResources (wipBatch f')))
         (finalizeBatch env0 finalizer0)
       = Some (Returned (), 11, getMaxRemainingResources constraints0)"
proof -
  have w: "waitSynced (isSynced env0) 0 = Some 0"
    by (rule waitSynced_now) (simp add: example_defs)
  have s: "Sub (getMaxRemainingResources constraints0) (l2BlockUsedResources env0) =
       Inr \<lparr> ZKCounters = \<lparr> GasUsed = 30000000, UsedKeccakHashes = 2145,
                 UsedPoseidonHashes = 252101, UsedPoseidonPaddings = 135191,
                 UsedMemAligns = 236585, UsedArithmetics = 236584, UsedBinaries = 473151,
                 UsedSteps = 7570017, UsedSha256Hashes_V2 = 1596 \<rparr>,
               Bytes = 119991 \<rparr>"
    by (simp add: Sub_def getMaxRemainingResources_def example_defs)
  have o: "openAfterClose env0 finalizer0 =
       Some ([],
             Returned
              (Some \<lparr> batchNumber = 11, coinbase = 1, timestamp = 2000, initialStateRoot = 8,
                      imStateRoot = 8, finalStateRoot = 8, localExitRoot = 3, countOfTxs = 0,
                      remainingResources = getMaxRemainingResources constraints0,
                      closingReason = EmptyClosingReason \<rparr>,
               None),
             finalizer0\<lparr> wipBatch := batch0\<lparr> remainingResources :=
               \<lparr> ZKCounters = \<lparr> GasUsed = 30000000, UsedKeccakHashes = 2145,
                   UsedPoseidonHashes = 252101, UsedPoseidonPaddings = 135191,
                   UsedMemAligns = 236585, UsedArithmetics = 236584, UsedBinaries = 473151,
                   UsedSteps = 7570017, UsedSha256Hashes_V2 = 1596 \<rparr>,
                 Bytes = 119991 \<rparr> \<rparr> \<rparr>)"
    using w
    by (simp add: openAfterClose_def openNewWIPBatch_def Sub_def Let_def
        getMaxRemainingResources_def example_defs)
  have c: "closeThenOpen env0 finalizer0 =
       Some ([Log log_Info ''batch %d closed''],
             Returned
              (Some \<lparr> batchNumber = 11, coinbase = 1, timestamp = 2000, initialStateRoot = 8,
                      imStateRoot = 8, finalStateRoot = 8, localExitRoot = 3, countOfTxs = 0,
                      remainingResources = getMaxRemainingResources constraints0,
                      closingReason = EmptyClosingReason \<rparr>,
               None),
             finalizer0\<lparr> wipBatch := batch0\<lparr> remainingResources :=
               \<lparr> ZKCounters = \<lparr> GasUsed = 30000000, UsedKeccakHashes = 2145,
                   UsedPoseidonHashes = 252101, UsedPoseidonPaddings = 135191,
                   UsedMemAligns = 236585, UsedArithmetics = 236584, UsedBinaries = 473151,
                   UsedSteps = 7570017, UsedSha256Hashes_V2 = 1596 \<rparr>,
                 Bytes = 119991 \<rparr> \<rparr> \<rparr>)"
    unfolding closeThenOpen_def o
    by (simp add: closeWIPBatch_def Let_def example_defs)
  have f: "batchNumber (wipBatch finalizer0) = 10" "initialStateRoot (wipBatch finalizer0) = 7"
    "finalStateRoot (wipBatch finalizer0) = 8" "SequentialReprocessFullBatch (cfg finalizer0)"
    "l2block_isEmpty (wipL2Block finalizer0)"
    by (simp_all add: example_defs)
  have p: "reprocessFullBatch env0 finalizer0 10 7 8 =
      ([Log log_Debug ''[reprocessFullBatch] reprocessing batch: %d, InitialStateRoot: %s, ExpectedNewStateRoot: %s'',
        Log log_Info ''[reprocessFullBatch]: reprocess successfully done for batch %d''],
       Returned (Some response0, None))"
    by (simp add: reprocessFullBatch_def executorBatchRequest_def Let_def env0_def response0_def
        stateBatch0_def)
  have r: "reprocessThenClose env0 finalizer0 =
       Some ([Log log_Debug ''[reprocessFullBatch] reprocessing batch: %d, InitialStateRoot: %s, ExpectedNewStateRoot: %s'',
              Log log_Info ''[reprocessFullBatch]: reprocess successfully done for batch %d'',
              Log log_Info ''batch %d closed''],
             Returned
              (Some \<lparr> batchNumber = 11, coinbase = 1, timestamp = 2000, initialStateRoot = 8,
                      imStateRoot = 8, finalStateRoot = 8, localExitRoot = 3, countOfTxs = 0,
                      remainingResources = getMaxRemainingResources constraints0,
                      closingReason = EmptyClosingReason \<rparr>,
               None),
             finalizer0\<lparr> wipBatch := batch0\<lparr> remainingResources :=
               \<lparr> ZKCounters = \<lparr> GasUsed = 30000000, UsedKeccakHashes = 2145,
                   UsedPoseidonHashes = 252101, UsedPoseidonPaddings = 135191,
                   UsedMemAligns = 236585, UsedArithmetics = 236584, UsedBinaries = 473151,
                   UsedSteps = 7570017, UsedSha256Hashes_V2 = 1596 \<rparr>,
                 Bytes = 119991 \<rparr> \<rparr> \<rparr>)"
    unfolding reprocessThenClose_def c
    by (simp add: f p Let_def)
  have d: "closeAndOpenNewWIPBatch env0 finalizer0 =
     Some ([Log log_Debug ''waiting for pending L2 blocks to be processed took: %s'',
            Log log_Debug ''waiting for pending L2 blocks to be stored took: %s'',
            Log log_Debug ''[reprocessFullBatch] reprocessing batch: %d, InitialStateRoot: %s, ExpectedNewStateRoot: %s'',
            Log log_Info ''[reprocessFullBatch]: reprocess successfully done for batch %d'',
            Log log_Info ''batch %d closed''],
           Returned
            (Some \<lparr> batchNumber = 11, coinbase = 1, timestamp = 2000, initialStateRoot = 8,
                    imStateRoot = 8, finalStateRoot = 8, localExitRoot = 3, countOfTxs = 0,
                    remainingResources = getMaxRemainingResources constraints0,
                    closingReason = EmptyClosingReason \<rparr>,
             None),
           finalizer0\<lparr> wipBatch := batch0\<lparr> remainingResources :=
             \<lparr> ZKCounters = \<lparr> GasUsed = 30000000, UsedKeccakHashes = 2145,
                 UsedPoseidonHashes = 252101, UsedPoseidonPaddings = 135191,
                 UsedMemAligns = 236585, UsedArithmetics = 236584, UsedBinaries = 473151,
                 UsedSteps = 7570017, UsedSha256Hashes_V2 = 1596 \<rparr>,
               Bytes = 119991 \<rparr> \<rparr> \<rparr>)"
    unfolding closeAndOpenNewWIPBatch_def
    by (simp add: f r Let_def)
  have b: "batchNumber batch0 = 10" by (simp add: batch0_def)
  have n: "map_option (\<lambda>(acts, r, f'). (r, batchNumber (wipBatch f'), remainingResources (wipBatch f')))
         (finalizeBatch env0 finalizer0)
       = Some (Returned (), 11, getMaxRemainingResources constraints0)"
    unfolding finalizeBatch_def d by simp
  from d s b n show ?thesis by blast
qed

end
